theory Spec2Isabelle
  imports Main
begin

section \<open>Python values\<close>

text \<open>
  The element types of numpy. \<open>DObject\<close> is the generic object type, the one
  element type that HDF5 cannot store.
\<close>

datatype dtype = DBool | DInt nat | DUInt nat | DFloat nat | DComplex nat | DString | DObject

text \<open>
  A class is known to the codec by \<open>__name__\<close>, \<open>__module__\<close> and the builtin
  type it derives from (what \<open>isinstance\<close> and \<open>issubclass\<close> see).
\<close>

datatype base_type = BaseObject | BaseDict | BaseList | BaseTuple

datatype pyclass = PyClass (cls_name: string) (cls_module: string) (cls_base: base_type)

text \<open>
  The objects that \<open>obj2hdf\<close> tells apart. An element of an array or a scalar is
  the string of its bytes, so that equal values are bit-identical values; a Python
  \<open>str\<close> is the scalar of element type \<open>DString\<close> holding its characters.
  \<^item> \<open>Scalar\<close>: what \<open>N.isscalar\<close> accepts, with the element type numpy gives it;
  \<^item> \<open>NDArray\<close>: an \<open>ndarray\<close> with its dtype, shape and elements in row-major order;
  \<^item> \<open>ObjArray\<close>: an \<open>ndarray\<close> of dtype object, its elements being objects;
  \<^item> \<open>Instance\<close>: an instance of a class that keeps the default \<open>__reduce__\<close>, with
    its \<open>__dict__\<close>, its elements when the class derives from list or tuple, and its
    items when the class derives from dict;
  \<^item> \<open>Reducible\<close>: an object whose \<open>__reduce__\<close> returns a factory of its own, with the
    factory's \<open>__name__\<close> and \<open>__module__\<close> and the arguments for it;
  \<^item> \<open>Opaque\<close>: any other object whose \<open>__reduce__\<close> raises TypeError (a function,
    a class, a file, a generator).
\<close>

datatype pyobj =
    Scalar dtype string
  | NDArray dtype "nat list" "string list"
  | ObjArray "nat list" "pyobj list"
  | PyNone
  | PyList "pyobj list"
  | PyTuple "pyobj list"
  | PyDict "(pyobj \<times> pyobj) list"
  | Instance pyclass "(pyobj \<times> pyobj) list" "pyobj list" "(pyobj \<times> pyobj) list"
  | Reducible pyclass string string "pyobj list"
  | Opaque pyclass

abbreviation PyStr :: "string \<Rightarrow> pyobj" where
  "PyStr s \<equiv> Scalar DString s"

datatype exc =
    RuntimeError string
  | NotImplementedError string
  | ValueError string
  | KeyError string
  | TypeError string
  | ImportError string
  | IOError string
  | AttributeError string

subsection \<open>What the interpreter answers\<close>

text \<open>\<open>str(i)\<close> of a natural number: its decimal digits.\<close>

definition digit :: "nat \<Rightarrow> char" where
  "digit d = ''0123456789'' ! d"

fun py_str :: "nat \<Rightarrow> string" where
  "py_str n = (if n < 10 then [digit n] else py_str (n div 10) @ [digit (n mod 10)])"

declare py_str.simps [simp del]

definition isscalar :: "pyobj \<Rightarrow> bool" where
  "isscalar obj = (case obj of Scalar _ _ \<Rightarrow> True | _ \<Rightarrow> False)"

definition is_ndarray :: "pyobj \<Rightarrow> bool" where
  "is_ndarray obj = (case obj of NDArray _ _ _ \<Rightarrow> True | ObjArray _ _ \<Rightarrow> True | _ \<Rightarrow> False)"

definition array_dtype :: "pyobj \<Rightarrow> dtype" where
  "array_dtype obj = (case obj of NDArray dt _ _ \<Rightarrow> dt | Scalar dt _ \<Rightarrow> dt | _ \<Rightarrow> DObject)"

text \<open>
  \<open>list(obj)\<close> of an array iterates over its first axis: the elements of a
  one-dimensional array, the sub-arrays of a higher-dimensional one, and a TypeError
  for a zero-dimensional one.
\<close>

definition chunk :: "nat \<Rightarrow> nat \<Rightarrow> 'a list \<Rightarrow> 'a list" where
  "chunk k i xs = take k (drop (i * k) xs)"

fun array_rows :: "pyobj \<Rightarrow> exc + pyobj list" where
  "array_rows (ObjArray [] es) = Inl (TypeError ''iteration over a 0-d array'')"
| "array_rows (ObjArray [n] es) = Inr es"
| "array_rows (ObjArray (n # r) es) =
     Inr (map (\<lambda>i. ObjArray r (chunk (prod_list r) i es)) [0..<n])"
| "array_rows (NDArray dt [] xs) = Inl (TypeError ''iteration over a 0-d array'')"
| "array_rows (NDArray dt [n] xs) = Inr (map (Scalar dt) xs)"
| "array_rows (NDArray dt (n # r) xs) =
     Inr (map (\<lambda>i. NDArray dt r (chunk (prod_list r) i xs)) [0..<n])"
| "array_rows obj = Inl (TypeError ''not an array'')"

text \<open>\<open>obj.__class__\<close>.\<close>

definition builtin :: string where
  "builtin = ''__builtin__''"

fun class_of :: "pyobj \<Rightarrow> pyclass" where
  "class_of PyNone = PyClass ''NoneType'' builtin BaseObject"
| "class_of (PyList _) = PyClass ''list'' builtin BaseList"
| "class_of (PyTuple _) = PyClass ''tuple'' builtin BaseTuple"
| "class_of (PyDict _) = PyClass ''dict'' builtin BaseDict"
| "class_of (Instance c _ _ _) = c"
| "class_of (Reducible c _ _ _) = c"
| "class_of (Opaque c) = c"
| "class_of (Scalar _ _) = PyClass ''generic'' ''numpy'' BaseObject"
| "class_of (NDArray _ _ _) = PyClass ''ndarray'' ''numpy'' BaseObject"
| "class_of (ObjArray _ _) = PyClass ''ndarray'' ''numpy'' BaseObject"

definition isinstance_seq :: "pyobj \<Rightarrow> bool" where
  "isinstance_seq obj = (cls_base (class_of obj) = BaseList \<or> cls_base (class_of obj) = BaseTuple)"

definition isinstance_dict :: "pyobj \<Rightarrow> bool" where
  "isinstance_dict obj = (cls_base (class_of obj) = BaseDict)"

text \<open>The elements \<open>enumerate(obj)\<close> walks, and the items \<open>for key in obj\<close> walks.\<close>

fun seq_items :: "pyobj \<Rightarrow> pyobj list" where
  "seq_items (PyList xs) = xs"
| "seq_items (PyTuple xs) = xs"
| "seq_items (Instance c d xs m) = xs"
| "seq_items obj = []"

fun map_items :: "pyobj \<Rightarrow> (pyobj \<times> pyobj) list" where
  "map_items (PyDict kvs) = kvs"
| "map_items (Instance c d xs m) = m"
| "map_items obj = []"

text \<open>
  \<open>obj.__reduce__()\<close>. The builtin containers and None have no reduction
  (\<open>copy_reg._reduce_ex\<close> raises TypeError for an instance of a builtin type itself);
  the default reduction of an instance is \<open>copy_reg._reconstructor\<close> with the class,
  its builtin base and the base's value, followed by \<open>__dict__\<close> when that is not empty.
\<close>

datatype pieces =
  Pieces (factory_name: string) (factory_module: string) (factory_args: "pyobj list")
    (reduce_state: "(pyobj \<times> pyobj) list option")

definition type_object :: pyobj where
  "type_object = Opaque (PyClass ''type'' builtin BaseObject)"

fun base_value :: "pyobj \<Rightarrow> pyobj" where
  "base_value (Instance c d xs m) =
     (case cls_base c of BaseObject \<Rightarrow> PyNone | BaseDict \<Rightarrow> PyDict m
      | BaseList \<Rightarrow> PyList xs | BaseTuple \<Rightarrow> PyTuple xs)"
| "base_value obj = PyNone"

fun py_reduce :: "pyobj \<Rightarrow> exc + pieces" where
  "py_reduce (Instance c d xs m) =
     Inr (Pieces ''_reconstructor'' ''copy_reg''
            [type_object, type_object, base_value (Instance c d xs m)]
            (if d = [] then None else Some d))"
| "py_reduce (Reducible c f m args) = Inr (Pieces f m args None)"
| "py_reduce obj = Inl (TypeError ''cannot pickle objects'')"

section \<open>The hierarchical store\<close>

text \<open>
  Modelled from the spec: the hierarchical store adapter (h5py) is not part of the
  sources. A node is a leaf holding an array of a fixed element type (a scalar when its
  shape is empty) or a group holding metadata attributes and named children; names are
  unique within a group and are plain strings. Children are kept in creation order.
\<close>

datatype attrval = AStr string | ABool bool

datatype node =
    Dataset dtype "nat list" "string list"
  | Group "(string \<times> attrval) list" "(string \<times> node) list"

fun attrs :: "node \<Rightarrow> (string \<times> attrval) list" where
  "attrs (Group a ch) = a"
| "attrs (Dataset dt sh xs) = []"

fun children :: "node \<Rightarrow> (string \<times> node) list" where
  "children (Group a ch) = ch"
| "children (Dataset dt sh xs) = []"

definition names :: "node \<Rightarrow> string list" where
  "names hdf = map fst (children hdf)"

text \<open>A name handed to the store is a \<open>str\<close>; the store refuses any other object.\<close>

fun as_name :: "pyobj \<Rightarrow> exc + string" where
  "as_name (Scalar DString s) = Inr s"
| "as_name obj = Inl (TypeError ''expected string'')"

text \<open>The leaf a value is stored as; HDF5 has no equivalent of the object type.\<close>

fun leaf_of :: "pyobj \<Rightarrow> exc + node" where
  "leaf_of (Scalar dt b) =
     (if dt = DObject then Inl (TypeError ''Object dtype has no native HDF5 equivalent'')
      else Inr (Dataset dt [] [b]))"
| "leaf_of (NDArray dt sh xs) =
     (if dt = DObject then Inl (TypeError ''Object dtype has no native HDF5 equivalent'')
      else Inr (Dataset dt sh xs))"
| "leaf_of obj = Inl (TypeError ''Object dtype has no native HDF5 equivalent'')"

text \<open>
  The writing operations take \<open>w\<close>, whether the file the group lives in was opened for
  writing, and return the group as it is afterwards together with the exception raised,
  if any. \<open>create_dataset\<close> without a name makes an anonymous dataset, one that no group
  links to.
\<close>

definition create_dataset :: "bool \<Rightarrow> node \<Rightarrow> pyobj option \<Rightarrow> pyobj \<Rightarrow> node \<times> exc option" where
  "create_dataset w hdf name obj =
     (case hdf of
        Dataset _ _ _ \<Rightarrow> (hdf, Some (AttributeError ''create_dataset''))
      | Group a ch \<Rightarrow>
          if \<not> w then (hdf, Some (IOError ''store is read-only''))
          else (case leaf_of obj of
              Inl e \<Rightarrow> (hdf, Some e)
            | Inr leaf \<Rightarrow>
               (case name of
                  None \<Rightarrow> (hdf, None)
                | Some nm \<Rightarrow>
                   (case as_name nm of
                      Inl e \<Rightarrow> (hdf, Some e)
                    | Inr s \<Rightarrow>
                        if s \<in> set (map fst ch) then (hdf, Some (ValueError ''name already exists''))
                        else (Group a (ch @ [(s, leaf)]), None)))))"

definition set_attr :: "string \<Rightarrow> attrval \<Rightarrow> (string \<times> attrval) list \<Rightarrow> (string \<times> attrval) list" where
  "set_attr k v a = filter (\<lambda>p. fst p \<noteq> k) a @ [(k, v)]"

definition attrs_create :: "bool \<Rightarrow> node \<Rightarrow> string \<Rightarrow> attrval \<Rightarrow> node \<times> exc option" where
  "attrs_create w grp k v =
     (case grp of
        Dataset _ _ _ \<Rightarrow> (grp, Some (AttributeError ''attrs''))
      | Group a ch \<Rightarrow>
          if \<not> w then (grp, Some (IOError ''store is read-only''))
          else (Group (set_attr k v a) ch, None))"

text \<open>
  \<open>grp = hdf.create_group(name)\<close> followed by statements that write into \<open>grp\<close>: the
  new group is a child of \<open>hdf\<close> from its creation on, so whatever the statements leave
  in it, also when they raise, is what \<open>hdf\<close> holds under \<open>name\<close>.
\<close>

definition with_group ::
  "bool \<Rightarrow> node \<Rightarrow> pyobj \<Rightarrow> (node \<Rightarrow> node \<times> exc option) \<Rightarrow> node \<times> exc option" where
  "with_group w hdf name body =
     (case hdf of
        Dataset _ _ _ \<Rightarrow> (hdf, Some (AttributeError ''create_group''))
      | Group a ch \<Rightarrow>
          if \<not> w then (hdf, Some (IOError ''store is read-only''))
          else (case as_name name of
              Inl e \<Rightarrow> (hdf, Some e)
            | Inr s \<Rightarrow>
                if s \<in> set (map fst ch) then (hdf, Some (ValueError ''name already exists''))
                else (case body (Group [] []) of (grp, e) \<Rightarrow> (Group a (ch @ [(s, grp)]), e))))"

text \<open>Statements in sequence: the next one runs on the store the last one left, unless it raised.\<close>

definition andthen ::
  "node \<times> exc option \<Rightarrow> (node \<Rightarrow> node \<times> exc option) \<Rightarrow> node \<times> exc option" where
  "andthen r f = (case r of (s, None) \<Rightarrow> f s | (s, Some e) \<Rightarrow> (s, Some e))"

lemma with_group_cong [fundef_cong]:
  "w = w' \<Longrightarrow> hdf = hdf' \<Longrightarrow> name = name' \<Longrightarrow> (\<And>g. body g = body' g)
     \<Longrightarrow> with_group w hdf name body = with_group w' hdf' name' body'"
  by (simp add: with_group_def split: node.splits sum.splits)

lemma andthen_cong [fundef_cong]:
  "r = r' \<Longrightarrow> (\<And>s. f s = f' s) \<Longrightarrow> andthen r f = andthen r' f'"
  by (simp add: andthen_def split: prod.splits option.splits)

lemma andthen_simps [simp]:
  "andthen (s, None) f = f s"
  "andthen (s, Some e) f = (s, Some e)"
  by (simp_all add: andthen_def)

section \<open>Encoding: \<open>obj2hdf\<close>\<close>

text \<open>\<open>try: pieces = obj.__reduce__() except TypeError: pieces = None\<close>.\<close>

definition try_reduce :: "pyobj \<Rightarrow> exc + pieces option" where
  "try_reduce obj =
     (case py_reduce obj of
        Inl (TypeError _) \<Rightarrow> Inr None
      | Inl e \<Rightarrow> Inl e
      | Inr p \<Rightarrow> Inr (Some p))"

text \<open>\<open>pieces is None or pieces[0].__name__ == '_reconstructor'\<close>.\<close>

definition common_container :: "pieces option \<Rightarrow> bool" where
  "common_container pieces =
     (case pieces of None \<Rightarrow> True | Some p \<Rightarrow> factory_name p = ''_reconstructor'')"

text \<open>\<open>pieces[2]\<close> where \<open>not pieces is None and len(pieces) > 2\<close>.\<close>

definition state_of :: "pieces option \<Rightarrow> (pyobj \<times> pyobj) list option" where
  "state_of pieces = (case pieces of None \<Rightarrow> None | Some p \<Rightarrow> reduce_state p)"

text \<open>
  \<open>obj = list(obj)\<close> for an array of objects, with the flag that says so; the object
  itself otherwise.
\<close>

definition objarray_as_list :: "pyobj \<Rightarrow> exc + pyobj \<times> bool" where
  "objarray_as_list obj =
     (if is_ndarray obj \<and> array_dtype obj = DObject
      then (case array_rows obj of Inl e \<Rightarrow> Inl e | Inr l \<Rightarrow> Inr (PyList l, True))
      else Inr (obj, False))"

text \<open>The measure of the recursion: an array of objects counts its rows as well.\<close>

fun rows_bound :: "nat list \<Rightarrow> nat" where
  "rows_bound [] = 1"
| "rows_bound (n # r) = Suc (n * Suc (rows_bound r))"

fun wt :: "pyobj \<Rightarrow> nat" where
  "wt (Scalar dt b) = 1"
| "wt (NDArray dt sh xs) = rows_bound sh + sum_list (map (\<lambda>x. 2) xs)"
| "wt (ObjArray sh es) = rows_bound sh + sum_list (map (\<lambda>e. Suc (wt e)) es)"
| "wt PyNone = 1"
| "wt (PyList xs) = Suc (sum_list (map (\<lambda>e. Suc (wt e)) xs))"
| "wt (PyTuple xs) = Suc (sum_list (map (\<lambda>e. Suc (wt e)) xs))"
| "wt (PyDict kvs) = Suc (sum_list (map (\<lambda>kv. Suc (wt (snd kv))) kvs))"
| "wt (Instance c d xs m) =
     Suc (sum_list (map (\<lambda>kv. Suc (wt (snd kv))) d) + sum_list (map (\<lambda>e. Suc (wt e)) xs)
          + sum_list (map (\<lambda>kv. Suc (wt (snd kv))) m))"
| "wt (Reducible c f m args) = Suc (sum_list (map (\<lambda>e. Suc (wt e)) args))"
| "wt (Opaque c) = 1"

lemma rows_bound_pos [simp]: "0 < rows_bound sh"
  by (cases sh) auto

lemma sum_list_const_add:
  "(\<Sum>i\<leftarrow>xs. (c::nat) + f i) = length xs * c + (\<Sum>i\<leftarrow>xs. f i)"
  by (induction xs) auto

lemma sum_chunks_le:
  "(\<Sum>i\<leftarrow>[0..<n]. sum_list (map f (chunk k i es))) \<le> (sum_list (map f es) :: nat)"
proof -
  have "(\<Sum>i\<leftarrow>[0..<n]. sum_list (map f (chunk k i es))) = sum_list (map f (take (n * k) es))"
  proof (induction n)
    case 0
    show ?case by simp
  next
    case (Suc n)
    have "take (Suc n * k) es = take (n * k) es @ take k (drop (n * k) es)"
      using take_add [of "n * k" k es] by (simp add: add.commute)
    with Suc show ?case by (simp add: chunk_def del: mult_Suc)
  qed
  also have "\<dots> \<le> sum_list (map f (take (n * k) es) @ map f (drop (n * k) es))"
    by simp
  also have "\<dots> = sum_list (map f es)"
    by (simp flip: map_append)
  finally show ?thesis .
qed

lemma wt_rows:
  "array_rows obj = Inr l \<Longrightarrow> sum_list (map (\<lambda>e. Suc (wt e)) l) < wt obj"
proof (induction obj rule: array_rows.induct)
  case (3 n v va es)
  define r where "r = v # va"
  have l: "l = map (\<lambda>i. ObjArray r (chunk (prod_list r) i es)) [0..<n]"
    using 3 by (auto simp: r_def)
  have "sum_list (map (\<lambda>e. Suc (wt e)) l)
      = (\<Sum>i\<leftarrow>[0..<n]. Suc (rows_bound r) + sum_list (map (\<lambda>e. Suc (wt e)) (chunk (prod_list r) i es)))"
    unfolding l by (simp add: comp_def)
  also have "\<dots> = n * Suc (rows_bound r)
      + (\<Sum>i\<leftarrow>[0..<n]. sum_list (map (\<lambda>e. Suc (wt e)) (chunk (prod_list r) i es)))"
    by (simp only: sum_list_const_add length_upt diff_zero)
  also have "\<dots> \<le> n * Suc (rows_bound r) + sum_list (map (\<lambda>e. Suc (wt e)) es)"
    using sum_chunks_le [of "\<lambda>e. Suc (wt e)"] by simp
  finally show ?case by (simp add: r_def)
next
  case (6 dt n v va xs)
  define r where "r = v # va"
  have l: "l = map (\<lambda>i. NDArray dt r (chunk (prod_list r) i xs)) [0..<n]"
    using 6 by (auto simp: r_def)
  have "sum_list (map (\<lambda>e. Suc (wt e)) l)
      = (\<Sum>i\<leftarrow>[0..<n]. Suc (rows_bound r) + sum_list (map (\<lambda>x. 2) (chunk (prod_list r) i xs)))"
    unfolding l by (simp add: comp_def)
  also have "\<dots> = n * Suc (rows_bound r)
      + (\<Sum>i\<leftarrow>[0..<n]. sum_list (map (\<lambda>x. 2) (chunk (prod_list r) i xs)))"
    by (simp only: sum_list_const_add length_upt diff_zero)
  also have "\<dots> \<le> n * Suc (rows_bound r) + sum_list (map (\<lambda>x. 2) xs)"
    using sum_chunks_le [of "\<lambda>x. 2"] by simp
  finally show ?case by (simp add: r_def)
next
  case (5 dt n xs)
  then show ?case by (auto simp: comp_def numeral_2_eq_2)
qed auto

lemma wt_objarray_as_list:
  "objarray_as_list obj = Inr (obj', flag) \<Longrightarrow> wt obj' \<le> wt obj"
  using wt_rows [of obj]
  by (auto simp: objarray_as_list_def split: if_splits sum.splits)

lemma wt_seq_items: "sum_list (map (\<lambda>e. Suc (wt e)) (seq_items obj)) < wt obj"
  by (cases obj) auto

lemma wt_map_items: "sum_list (map (\<lambda>kv. Suc (wt (snd kv))) (map_items obj)) < wt obj"
  by (cases obj) auto

lemma wt_state:
  "try_reduce obj = Inr pieces \<Longrightarrow> state_of pieces = Some st
     \<Longrightarrow> sum_list (map (\<lambda>kv. Suc (wt (snd kv))) st) < wt obj"
  by (cases obj) (auto simp: try_reduce_def state_of_def split: if_splits)

lemma wt_args:
  "try_reduce obj = Inr (Some p) \<Longrightarrow> \<not> common_container (Some p) \<Longrightarrow> sum_list (map (\<lambda>e. Suc (wt e)) (factory_args p)) < wt obj"
  by (cases obj) (auto simp: try_reduce_def common_container_def)

lemma wt_seq_items_list:
  "objarray_as_list obj = Inr (obj', flag)
     \<Longrightarrow> sum_list (map (\<lambda>e. Suc (wt e)) (seq_items obj')) < wt obj"
  using wt_objarray_as_list [of obj obj' flag] wt_seq_items [of obj'] by simp

lemma wt_map_items_list:
  "objarray_as_list obj = Inr (obj', flag)
     \<Longrightarrow> sum_list (map (\<lambda>kv. Suc (wt (snd kv))) (map_items obj')) < wt obj"
  using wt_objarray_as_list [of obj obj' flag] wt_map_items [of obj'] by simp

lemma wt_state_list:
  "objarray_as_list obj = Inr (obj', flag) \<Longrightarrow> try_reduce obj' = Inr pieces
     \<Longrightarrow> state_of pieces = Some st
     \<Longrightarrow> sum_list (map (\<lambda>kv. Suc (wt (snd kv))) st) < wt obj"
  using wt_objarray_as_list [of obj obj' flag] wt_state [of obj' pieces st] by simp

lemma wt_args_list:
  "objarray_as_list obj = Inr (obj', flag) \<Longrightarrow> try_reduce obj' = Inr (Some p)
     \<Longrightarrow> \<not> common_container (Some p)
     \<Longrightarrow> sum_list (map (\<lambda>e. Suc (wt e)) (factory_args p)) < wt obj"
  using wt_objarray_as_list [of obj obj' flag] wt_args [of obj' p] by simp

text \<open>
  \<open>obj2hdf(hdf, obj, name, **kwargs)\<close>. The keyword arguments only travel to
  \<open>create_dataset\<close>, which the codec does not interpret, and are left out. \<open>store_seq\<close>
  is the loop \<open>for i, item in enumerate(obj): obj2hdf(items, item, str(i))\<close>, from index
  \<open>i\<close> on; \<open>store_map\<close> is the loop \<open>for key in obj: obj2hdf(items, obj[key], key)\<close>.
\<close>

function obj2hdf :: "bool \<Rightarrow> node \<Rightarrow> pyobj \<Rightarrow> pyobj option \<Rightarrow> node \<times> exc option"
  and store_seq :: "bool \<Rightarrow> node \<Rightarrow> pyobj list \<Rightarrow> nat \<Rightarrow> node \<times> exc option"
  and store_map :: "bool \<Rightarrow> node \<Rightarrow> (pyobj \<times> pyobj) list \<Rightarrow> node \<times> exc option"
where
  "obj2hdf w hdf obj name =
    (if isscalar obj \<or> (is_ndarray obj \<and> array_dtype obj \<noteq> DObject)
     then create_dataset w hdf name obj
     else
       (case name of None \<Rightarrow> (\<lambda>body. body hdf) | Some nm \<Rightarrow> with_group w hdf nm) (\<lambda>grp.
       case objarray_as_list obj of
         Inl e \<Rightarrow> (grp, Some e)
       | Inr (obj, is_objarray) \<Rightarrow>
          andthen (if is_objarray then attrs_create w grp ''is_objarray'' (ABool True)
                   else (grp, None)) (\<lambda>grp.
          case try_reduce obj of
            Inl e \<Rightarrow> (grp, Some e)
          | Inr pieces \<Rightarrow>
             if common_container pieces then
               andthen (attrs_create w grp ''class'' (AStr (cls_name (class_of obj)))) (\<lambda>grp.
               andthen (attrs_create w grp ''module'' (AStr (cls_module (class_of obj)))) (\<lambda>grp.
               andthen
                 (if isinstance_seq obj then
                    with_group w grp (PyStr ''items'') (\<lambda>items. store_seq w items (seq_items obj) 0)
                  else if isinstance_dict obj then
                    with_group w grp (PyStr ''items'') (\<lambda>items. store_map w items (map_items obj))
                  else (grp, None)) (\<lambda>grp.
               case state_of pieces of
                 Some state \<Rightarrow>
                   with_group w grp (PyStr ''state'') (\<lambda>stategrp. store_map w stategrp state)
               | None \<Rightarrow> (grp, None))))
             else
               (case pieces of
                  None \<Rightarrow> (grp, None)
                | Some p \<Rightarrow>
                   andthen (attrs_create w grp ''recon'' (AStr (factory_name p))) (\<lambda>grp.
                   andthen (attrs_create w grp ''module'' (AStr (factory_module p))) (\<lambda>grp.
                   with_group w grp (PyStr ''rcargs'') (\<lambda>args.
                     store_seq w args (factory_args p) 0)))))))"
| "store_seq w items [] i = (items, None)"
| "store_seq w items (item # rest) i =
     andthen (obj2hdf w items item (Some (PyStr (py_str i)))) (\<lambda>items. store_seq w items rest (Suc i))"
| "store_map w items [] = (items, None)"
| "store_map w items ((key, val) # rest) =
     andthen (obj2hdf w items val (Some key)) (\<lambda>items. store_map w items rest)"
  by pat_completeness auto
termination
  by (relation "measure (\<lambda>x. case x of
      Inl (w, hdf, obj, name) \<Rightarrow> wt obj
    | Inr (Inl (w, items, xs, i)) \<Rightarrow> sum_list (map (\<lambda>e. Suc (wt e)) xs)
    | Inr (Inr (w, items, kvs)) \<Rightarrow> sum_list (map (\<lambda>kv. Suc (wt (snd kv))) kvs))")
   (auto simp: wt_seq_items_list wt_map_items_list wt_state_list wt_args_list)

section \<open>Decoding: \<open>hdf2obj\<close>\<close>

subsection \<open>The interpreter while decoding\<close>

text \<open>
  What the decoder can reach of the running interpreter: \<open>__import__\<close> of a module by
  name (an ImportError when there is none) and the module's \<open>__dict__\<close>. An entity
  found there is a class or not, and calling it gives an object or raises.
\<close>

datatype entity = Entity (as_class: "pyclass option") (call: "pyobj list \<Rightarrow> exc + pyobj")

type_synonym pymodule = "string \<Rightarrow> entity option"

type_synonym runtime = "string \<Rightarrow> pymodule option"

text \<open>
  Every use the decoder makes of the interpreter is recorded: importing a module,
  looking a name up in a module, allocating an instance of a class, calling a factory.
\<close>

datatype event =
    Import string
  | Lookup string string
  | New string string
  | Call string string "pyobj list"

type_synonym 'a outcome = "event list \<times> (exc + 'a)"

definition returns :: "'a \<Rightarrow> 'a outcome" where
  "returns v = ([], Inr v)"

definition raises :: "exc \<Rightarrow> 'a outcome" where
  "raises e = ([], Inl e)"

definition lift :: "exc + 'a \<Rightarrow> 'a outcome" where
  "lift r = ([], r)"

definition ebind :: "'a outcome \<Rightarrow> ('a \<Rightarrow> 'b outcome) \<Rightarrow> 'b outcome" where
  "ebind r f =
     (case r of
        (ev, Inl e) \<Rightarrow> (ev, Inl e)
      | (ev, Inr v) \<Rightarrow> (case f v of (ev', r') \<Rightarrow> (ev @ ev', r')))"

lemma ebind_cong [fundef_cong]:
  "r = r' \<Longrightarrow> (\<And>v. snd r' = Inr v \<Longrightarrow> f v = f' v) \<Longrightarrow> ebind r f = ebind r' f'"
  by (auto simp: ebind_def split: prod.splits sum.splits)

lemma ebind_simps [simp]:
  "ebind (ev, Inl e) f = (ev, Inl e)"
  "ebind (ev, Inr v) f = (ev @ fst (f v), snd (f v))"
  "ebind (returns v) f = f v"
  "ebind (raises e) f = raises e"
  by (simp_all add: ebind_def returns_def raises_def split: prod.splits)

text \<open>\<open>"%s" % value\<close> of an attribute value.\<close>

fun py_format :: "attrval \<Rightarrow> string" where
  "py_format (AStr s) = s"
| "py_format (ABool b) = (if b then ''True'' else ''False'')"

text \<open>
  \<open>mod = __import__(mod, fromlist=[name])\<close> followed by \<open>mod.__dict__[name]\<close>, for the
  values of two attributes.
\<close>

definition import_from :: "runtime \<Rightarrow> attrval \<Rightarrow> attrval \<Rightarrow> entity outcome" where
  "import_from rt md name =
     (case md of
        ABool _ \<Rightarrow> raises (TypeError ''__import__() argument 1 must be string'')
      | AStr m \<Rightarrow>
         (case rt m of
            None \<Rightarrow> ([Import m], Inl (ImportError m))
          | Some d \<Rightarrow>
             (case name of
                ABool _ \<Rightarrow> ([Import m], Inl (KeyError (py_format name)))
              | AStr n \<Rightarrow>
                 (case d n of
                    None \<Rightarrow> ([Import m, Lookup m n], Inl (KeyError n))
                  | Some en \<Rightarrow> ([Import m, Lookup m n], Inr en)))))"

text \<open>\<open>recon(*recon_args)\<close>.\<close>

definition call_factory :: "attrval \<Rightarrow> attrval \<Rightarrow> entity \<Rightarrow> pyobj list \<Rightarrow> pyobj outcome" where
  "call_factory md name en args = ([Call (py_format md) (py_format name) args], call en args)"

text \<open>
  \<open>dict.__new__(cls) if issubclass(cls, dict) else object.__new__(cls)\<close>: a bare
  instance, its constructor not run. \<open>issubclass\<close> wants a class, and \<open>object.__new__\<close>
  refuses a class that derives from list or tuple.
\<close>

definition new_instance :: "attrval \<Rightarrow> attrval \<Rightarrow> entity \<Rightarrow> pyobj outcome" where
  "new_instance md name en =
     (case as_class en of
        None \<Rightarrow> raises (TypeError ''issubclass() arg 1 must be a class'')
      | Some c \<Rightarrow>
         (if cls_base c = BaseList \<or> cls_base c = BaseTuple
          then ([New (py_format md) (py_format name)], Inl (TypeError ''object.__new__ is not safe''))
          else ([New (py_format md) (py_format name)], Inr (Instance c [] [] []))))"

text \<open>\<open>dict(pairs)\<close>: a later pair replaces an earlier one with the same key.\<close>

fun py_dict :: "('k \<times> 'v) list \<Rightarrow> ('k \<times> 'v) list" where
  "py_dict [] = []"
| "py_dict ((k, v) # r) = (if k \<in> set (map fst r) then py_dict r else (k, v) # py_dict r)"

definition dict_update :: "('k \<times> 'v) list \<Rightarrow> ('k \<times> 'v) list \<Rightarrow> ('k \<times> 'v) list" where
  "dict_update old new = py_dict (old @ new)"

text \<open>\<open>obj.__dict__.update(state)\<close> and \<open>obj.update(items)\<close> on an instance.\<close>

fun update_state :: "pyobj \<Rightarrow> (pyobj \<times> pyobj) list \<Rightarrow> pyobj" where
  "update_state (Instance c d xs m) st = Instance c (dict_update d st) xs m"
| "update_state obj st = obj"

fun update_items :: "pyobj \<Rightarrow> (pyobj \<times> pyobj) list \<Rightarrow> pyobj" where
  "update_items (Instance c d xs m) kvs = Instance c d xs (dict_update m kvs)"
| "update_items obj kvs = obj"

text \<open>
  Modelled from the spec: \<open>asobjarray\<close> of \<open>mvpa.base.types\<close> is not part of the
  sources. It re-wraps a sequence into an object-typed array: one element for each
  element of the sequence.
\<close>

definition asobjarray :: "pyobj list \<Rightarrow> pyobj" where
  "asobjarray l = ObjArray [length l] l"

subsection \<open>Reading the store\<close>

text \<open>
  \<open>hdf.name\<close> of a child: the path from the root, which is \<open>/\<close>.
\<close>

definition child_name :: "string \<Rightarrow> string \<Rightarrow> string" where
  "child_name parent k = (if parent = ''/'' then ''/'' @ k else parent @ ''/'' @ k)"

text \<open>\<open>hdf[key]\<close>, \<open>hdf.attrs[key]\<close>, \<open>len(hdf)\<close> and \<open>for item in hdf\<close>.\<close>

definition getitem :: "node \<Rightarrow> string \<Rightarrow> exc + node" where
  "getitem hdf k =
     (case hdf of
        Dataset _ _ _ \<Rightarrow> Inl (ValueError ''field names only allowed for compound types'')
      | Group a ch \<Rightarrow> (case map_of ch k of None \<Rightarrow> Inl (KeyError k) | Some c \<Rightarrow> Inr c))"

definition get_attr :: "node \<Rightarrow> string \<Rightarrow> exc + attrval" where
  "get_attr hdf k = (case map_of (attrs hdf) k of None \<Rightarrow> Inl (KeyError k) | Some v \<Rightarrow> Inr v)"

definition has_attr :: "node \<Rightarrow> string \<Rightarrow> bool" where
  "has_attr hdf k = (k \<in> set (map fst (attrs hdf)))"

definition py_len :: "node \<Rightarrow> exc + nat" where
  "py_len hdf =
     (case hdf of
        Group a ch \<Rightarrow> Inr (length ch)
      | Dataset dt [] xs \<Rightarrow> Inl (TypeError ''Attempt to take len() of scalar dataset'')
      | Dataset dt (d # sh) xs \<Rightarrow> Inr d)"

text \<open>
  Iterating over a group gives the names of its children. Iterating over a dataset
  gives its rows, none for an empty one; a row is no name, and decoding what it selects
  fails.
\<close>

definition iter_names :: "node \<Rightarrow> exc + string list" where
  "iter_names hdf =
     (case hdf of
        Group a ch \<Rightarrow> Inr (map fst ch)
      | Dataset dt [] xs \<Rightarrow> Inl (TypeError ''Cannot iterate over a scalar dataset'')
      | Dataset dt (d # sh) xs \<Rightarrow>
          if d = 0 then Inr [] else Inl (AttributeError ''attrs''))"

subsection \<open>The decoder\<close>

definition no_class_info :: "string \<Rightarrow> exc" where
  "no_class_info name = RuntimeError
     (''Found hdf group without class instance information (group: '' @ name
      @ ''). This is a conceptual bug in the parser or the hdf writer. Please report.'')"

definition unhandled_builtin :: "string \<Rightarrow> exc" where
  "unhandled_builtin name = RuntimeError
     (''Found hdf group with a builtin type that is not handled by the parser (group: ''
      @ name @ ''). This is a conceptual bug in the parser. Please report.'')"

definition builtin_recon :: "attrval \<Rightarrow> exc" where
  "builtin_recon recon = NotImplementedError
     (''Built-in reconstructors are not supported (yet). Got: '' @ py_format recon @ ''.'')"

definition unhandled_container :: "attrval \<Rightarrow> exc" where
  "unhandled_container cls = NotImplementedError
     (''Unhandled conatiner typ (got: '' @ py_format cls @ '').'')"

lemma map_of_size:
  "map_of ch k = Some c \<Longrightarrow> size (c::node) < Suc (size_list (size_prod (\<lambda>_. 0) size) ch)"
  by (induction ch) (auto split: if_splits)

lemma getitem_size: "getitem hdf k = Inr c \<Longrightarrow> size c < size hdf"
  using map_of_size [of _ k c]
  by (cases hdf) (auto simp: getitem_def split: option.splits)

text \<open>
  \<open>hdf2obj(hdf)\<close>, for the node \<open>hdf\<close> whose \<open>hdf.name\<close> is \<open>name\<close>, in the
  interpreter \<open>rt\<close>. \<open>listitems_from\<close> is the comprehension
  \<open>[hdf2obj(hdf[str(i)]) for i in ...]\<close> over the indices that are left, and
  \<open>dictitems_from\<close> the comprehension \<open>[(item, hdf2obj(hdf[item])) for item in ... if
  not item in skip]\<close> over the names that are left.
\<close>

function hdf2obj :: "runtime \<Rightarrow> string \<Rightarrow> node \<Rightarrow> pyobj outcome"
  and hdf_dictitems_to_obj :: "runtime \<Rightarrow> string \<Rightarrow> node \<Rightarrow> string list \<Rightarrow> (pyobj \<times> pyobj) list outcome"
  and dictitems_from ::
    "runtime \<Rightarrow> string \<Rightarrow> node \<Rightarrow> string list \<Rightarrow> string list \<Rightarrow> (pyobj \<times> pyobj) list outcome"
  and hdf_listitems_to_obj :: "runtime \<Rightarrow> string \<Rightarrow> node \<Rightarrow> pyobj list outcome"
  and listitems_from :: "runtime \<Rightarrow> string \<Rightarrow> node \<Rightarrow> nat list \<Rightarrow> pyobj list outcome"
  and hdf_tupleitems_to_obj :: "runtime \<Rightarrow> string \<Rightarrow> node \<Rightarrow> pyobj outcome"
where
  "hdf2obj rt name hdf =
    (case hdf of
       Dataset dt sh xs \<Rightarrow>
         (if length sh = 0
          then (case xs of
                  [] \<Rightarrow> raises (ValueError ''empty selection'')
                | x # _ \<Rightarrow> returns (Scalar dt x))
          else returns (NDArray dt sh xs))
     | Group a ch \<Rightarrow>
        if \<not> (has_attr hdf ''class'' \<or> has_attr hdf ''recon'') then raises (no_class_info name)
        else if has_attr hdf ''recon'' then
          ebind (lift (get_attr hdf ''recon'')) (\<lambda>recon.
          ebind (lift (get_attr hdf ''module'')) (\<lambda>md.
          if md = AStr ''__builtin__'' then raises (builtin_recon recon)
          else
            ebind (import_from rt md recon) (\<lambda>en.
            ebind (if ''rcargs'' \<in> set (names hdf)
                   then (case getitem hdf ''rcargs'' of
                           Inl e \<Rightarrow> raises e
                         | Inr args \<Rightarrow> hdf_tupleitems_to_obj rt (child_name name ''rcargs'') args)
                   else returns (PyTuple [])) (\<lambda>recon_args.
            call_factory md recon en (seq_items recon_args)))))
        else
          ebind (lift (get_attr hdf ''class'')) (\<lambda>cls.
          ebind (lift (get_attr hdf ''module'')) (\<lambda>md.
          if \<not> md = AStr ''__builtin__'' then
            ebind (import_from rt md cls) (\<lambda>en.
            ebind (new_instance md cls en) (\<lambda>obj.
            ebind (if ''state'' \<in> set (names hdf)
                   then (case getitem hdf ''state'' of
                           Inl e \<Rightarrow> raises e
                         | Inr st \<Rightarrow>
                             ebind (hdf_dictitems_to_obj rt (child_name name ''state'') st [])
                               (\<lambda>d. returns (update_state obj d)))
                   else returns obj) (\<lambda>obj.
            if ''items'' \<in> set (names hdf) then
              (if isinstance_dict obj then
                 (case getitem hdf ''items'' of
                    Inl e \<Rightarrow> raises e
                  | Inr items \<Rightarrow>
                      ebind (hdf_dictitems_to_obj rt (child_name name ''items'') items [])
                        (\<lambda>d. returns (update_items obj d)))
               else raises (unhandled_container cls))
            else returns obj)))
          else
            if cls = AStr ''NoneType'' then returns PyNone
            else if cls = AStr ''tuple'' then
              (case getitem hdf ''items'' of
                 Inl e \<Rightarrow> raises e
               | Inr items \<Rightarrow> hdf_tupleitems_to_obj rt (child_name name ''items'') items)
            else if cls = AStr ''list'' then
              (case getitem hdf ''items'' of
                 Inl e \<Rightarrow> raises e
               | Inr items \<Rightarrow>
                   ebind (hdf_listitems_to_obj rt (child_name name ''items'') items) (\<lambda>l.
                   if has_attr hdf ''is_objarray'' then returns (asobjarray l)
                   else returns (PyList l)))
            else if cls = AStr ''dict'' then
              (case getitem hdf ''items'' of
                 Inl e \<Rightarrow> raises e
               | Inr items \<Rightarrow>
                   ebind (hdf_dictitems_to_obj rt (child_name name ''items'') items [])
                     (\<lambda>d. returns (PyDict d)))
            else raises (unhandled_builtin name))))"
| "hdf_dictitems_to_obj rt name hdf skip =
     (case iter_names hdf of
        Inl e \<Rightarrow> raises e
      | Inr items \<Rightarrow> ebind (dictitems_from rt name hdf skip items) (\<lambda>pairs. returns (py_dict pairs)))"
| "dictitems_from rt name hdf skip [] = returns []"
| "dictitems_from rt name hdf skip (item # rest) =
     (if item \<in> set skip then dictitems_from rt name hdf skip rest
      else (case getitem hdf item of
              Inl e \<Rightarrow> raises e
            | Inr c \<Rightarrow>
                ebind (hdf2obj rt (child_name name item) c) (\<lambda>v.
                ebind (dictitems_from rt name hdf skip rest) (\<lambda>vs.
                returns ((PyStr item, v) # vs)))))"
| "hdf_listitems_to_obj rt name hdf =
     (case py_len hdf of
        Inl e \<Rightarrow> raises e
      | Inr n \<Rightarrow> listitems_from rt name hdf [0..<n])"
| "listitems_from rt name hdf [] = returns []"
| "listitems_from rt name hdf (i # rest) =
     (case getitem hdf (py_str i) of
        Inl e \<Rightarrow> raises e
      | Inr c \<Rightarrow>
          ebind (hdf2obj rt (child_name name (py_str i)) c) (\<lambda>v.
          ebind (listitems_from rt name hdf rest) (\<lambda>vs.
          returns (v # vs))))"
| "hdf_tupleitems_to_obj rt name hdf =
     ebind (hdf_listitems_to_obj rt name hdf) (\<lambda>l. returns (PyTuple l))"
  by pat_completeness auto
termination
  by (relation "inv_image (less_than <*lex*> less_than <*lex*> less_than) (\<lambda>x. case x of
        Inl (Inl (rt, name, hdf)) \<Rightarrow> (size hdf, 0, 0)
      | Inl (Inr (Inl (rt, name, hdf, skip))) \<Rightarrow> (size hdf, 1, 0)
      | Inl (Inr (Inr (rt, name, hdf, skip, items))) \<Rightarrow> (size hdf, 0, length items)
      | Inr (Inl (rt, name, hdf)) \<Rightarrow> (size hdf, 1, 0)
      | Inr (Inr (Inl (rt, name, hdf, idx))) \<Rightarrow> (size hdf, 0, length idx)
      | Inr (Inr (Inr (rt, name, hdf))) \<Rightarrow> (size hdf, 2, 0))")
    (auto dest: getitem_size)

declare hdf2obj.simps [simp del]

declare obj2hdf.simps [simp del]

section \<open>Files: \<open>h5save\<close> and \<open>h5load\<close>\<close>

text \<open>
  Modelled from the spec: \<open>h5py.File\<close> is not part of the sources. The world holds
  the files on disk, each the root group of a store, and the handles that are open, one
  entry of \<open>opened\<close> for each. The modes \<open>'r'\<close>, \<open>'r+'\<close>, \<open>'w'\<close>, \<open>'w-'\<close> and \<open>'a'\<close> are \<open>Read\<close>,
  \<open>ReadWrite\<close>, \<open>Truncate\<close>, \<open>Exclusive\<close> and \<open>Append\<close>.
\<close>

datatype mode = Read | ReadWrite | Truncate | Exclusive | Append

record world =
  disk :: "(string \<times> node) list"
  opened :: "string list"

definition on_disk :: "world \<Rightarrow> string \<Rightarrow> node option" where
  "on_disk wd filename = map_of (disk wd) filename"

definition write_disk :: "world \<Rightarrow> string \<Rightarrow> node \<Rightarrow> world" where
  "write_disk wd filename root =
     wd\<lparr>disk := (filename, root) # filter (\<lambda>p. fst p \<noteq> filename) (disk wd)\<rparr>"

text \<open>
  \<open>h5py.File(filename, mode)\<close>: the world with the handle open, the root group and
  whether it can be written; an IOError and no handle when the mode does not fit what
  is on disk.
\<close>

definition File :: "world \<Rightarrow> string \<Rightarrow> mode \<Rightarrow> exc + world \<times> node \<times> bool" where
  "File wd filename md =
     (let opening = (\<lambda>wd root wr. Inr (wd\<lparr>opened := filename # opened wd\<rparr>, root, wr));
          creating = (\<lambda>wr. opening (write_disk wd filename (Group [] [])) (Group [] []) wr)
      in case (md, on_disk wd filename) of
           (Read, None) \<Rightarrow> Inl (IOError ''unable to open file'')
         | (Read, Some root) \<Rightarrow> opening wd root False
         | (ReadWrite, None) \<Rightarrow> Inl (IOError ''unable to open file'')
         | (ReadWrite, Some root) \<Rightarrow> opening wd root True
         | (Truncate, _) \<Rightarrow> creating True
         | (Exclusive, None) \<Rightarrow> creating True
         | (Exclusive, Some root) \<Rightarrow> Inl (IOError ''file exists'')
         | (Append, None) \<Rightarrow> creating True
         | (Append, Some root) \<Rightarrow> opening wd root True)"

text \<open>\<open>hdf.close()\<close>: the handle is gone; what was written is on disk.\<close>

definition close :: "world \<Rightarrow> string \<Rightarrow> node \<Rightarrow> world" where
  "close wd filename root =
     (write_disk wd filename root)\<lparr>opened := remove1 filename (opened wd)\<rparr>"

text \<open>
  \<open>h5save(filename, data, name, mode)\<close>: \<open>obj2hdf\<close> in a \<open>try\<close> whose \<open>finally\<close>
  closes the file; the exception of \<open>obj2hdf\<close>, if any, goes on to the caller after that.
\<close>

definition h5save :: "world \<Rightarrow> string \<Rightarrow> pyobj \<Rightarrow> pyobj option \<Rightarrow> mode \<Rightarrow> world \<times> exc option" where
  "h5save wd filename data name md =
     (case File wd filename md of
        Inl e \<Rightarrow> (wd, Some e)
      | Inr (wd, hdf, wr) \<Rightarrow>
          (case obj2hdf wr hdf data name of
             (hdf, raised) \<Rightarrow> (close wd filename hdf, raised)))"

definition no_object :: "string \<Rightarrow> string \<Rightarrow> exc" where
  "no_object name filename = ValueError
     (''No object of name '' @ name @ '' in file '' @ filename @ ''.'')"

text \<open>
  \<open>h5load(filename, name)\<close>: the body of the \<open>try\<close> first, \<open>hdf.close()\<close> of the
  \<open>finally\<close> after it, whatever the body did.
\<close>

definition h5load :: "runtime \<Rightarrow> world \<Rightarrow> string \<Rightarrow> pyobj option \<Rightarrow> world \<times> pyobj outcome" where
  "h5load rt wd filename name =
     (case File wd filename Read of
        Inl e \<Rightarrow> (wd, raises e)
      | Inr (wd, hdf, wr) \<Rightarrow>
          (let obj =
             (case name of
                Some nm \<Rightarrow>
                  (case as_name nm of
                     Inl e \<Rightarrow> raises e
                   | Inr n \<Rightarrow>
                       if \<not> n \<in> set (names hdf) then raises (no_object n filename)
                       else (case getitem hdf n of
                               Inl e \<Rightarrow> raises e
                             | Inr c \<Rightarrow> hdf2obj rt (child_name ''/'' n) c))
              | None \<Rightarrow> hdf2obj rt ''/'' hdf)
           in (close wd filename hdf, obj)))"

section \<open>Values that come back\<close>

text \<open>
  The values made of storable scalars, arrays of at least one dimension, None, lists,
  tuples, dicts whose keys are strings (a dict has each key once), and one-dimensional
  arrays of objects, all the way down.
\<close>

fun is_str :: "pyobj \<Rightarrow> bool" where
  "is_str (Scalar DString s) = True"
| "is_str obj = False"

fun plain :: "pyobj \<Rightarrow> bool" where
  "plain (Scalar dt b) = (dt \<noteq> DObject)"
| "plain (NDArray dt sh xs) = (dt \<noteq> DObject \<and> sh \<noteq> [])"
| "plain (ObjArray sh es) = (sh = [length es] \<and> (\<forall>e \<in> set es. plain e))"
| "plain PyNone = True"
| "plain (PyList xs) = (\<forall>x \<in> set xs. plain x)"
| "plain (PyTuple xs) = (\<forall>x \<in> set xs. plain x)"
| "plain (PyDict kvs) =
     (distinct (map fst kvs) \<and> (\<forall>kv \<in> set kvs. is_str (fst kv) \<and> plain (snd kv)))"
| "plain obj = False"

text \<open>Sequence-style children: the nodes \<open>cs\<close> under the names \<open>str(i)\<close>, \<open>str(i + 1)\<close>, ...\<close>

fun numbered :: "nat \<Rightarrow> 'a list \<Rightarrow> (string \<times> 'a) list" where
  "numbered i [] = []"
| "numbered i (c # cs) = (py_str i, c) # numbered (Suc i) cs"

text \<open>
  \<open>stores v c\<close>: stored under a fresh name of any group, \<open>v\<close> becomes the child \<open>c\<close>
  and nothing is raised. \<open>stores_top v c\<close>: stored without a name into an empty group,
  \<open>v\<close> makes that group \<open>c\<close>, unless \<open>v\<close> goes into a dataset, which needs a name.
  \<open>decodes c v\<close>: the node \<open>c\<close> decodes to \<open>v\<close>, wherever it is and whatever the
  interpreter offers, without using the interpreter.
\<close>

definition stores :: "pyobj \<Rightarrow> node \<Rightarrow> bool" where
  "stores v c \<longleftrightarrow> (\<forall>a ch n. n \<notin> set (map fst ch) \<longrightarrow>
       obj2hdf True (Group a ch) v (Some (PyStr n)) = (Group a (ch @ [(n, c)]), None))"

definition decodes :: "node \<Rightarrow> pyobj \<Rightarrow> bool" where
  "decodes c v \<longleftrightarrow> (\<forall>rt name. hdf2obj rt name c = ([], Inr v))"

definition stores_top :: "pyobj \<Rightarrow> node \<Rightarrow> bool" where
  "stores_top v c \<longleftrightarrow>
     isscalar v \<or> (is_ndarray v \<and> array_dtype v \<noteq> DObject)
     \<or> obj2hdf True (Group [] []) v None = (c, None)"

definition faithful :: "pyobj \<Rightarrow> node \<Rightarrow> bool" where
  "faithful v c \<longleftrightarrow> stores v c \<and> stores_top v c \<and> decodes c v"

definition stores_item :: "pyobj \<times> pyobj \<Rightarrow> string \<times> node \<Rightarrow> bool" where
  "stores_item kv sc \<longleftrightarrow> fst kv = PyStr (fst sc) \<and> stores (snd kv) (snd sc)"

definition decodes_item :: "string \<times> node \<Rightarrow> pyobj \<times> pyobj \<Rightarrow> bool" where
  "decodes_item sc kv \<longleftrightarrow> fst kv = PyStr (fst sc) \<and> decodes (snd sc) (snd kv)"

section \<open>What decoding may use\<close>

text \<open>
  The nodes of a store, and the uses of the interpreter that the metadata of a group
  names: importing the module of its \<open>module\<close> attribute, looking up in it the name of
  its \<open>class\<close> or \<open>recon\<close> attribute, allocating an instance of that class, calling
  that factory.
\<close>

fun subnodes :: "node \<Rightarrow> node list" where
  "subnodes (Dataset dt sh xs) = [Dataset dt sh xs]"
| "subnodes (Group a ch) = Group a ch # concat (map (\<lambda>kc. subnodes (snd kc)) ch)"

fun sanctioned :: "node \<Rightarrow> event \<Rightarrow> bool" where
  "sanctioned g (Import m) = (get_attr g ''module'' = Inr (AStr m))"
| "sanctioned g (Lookup m n) =
     (get_attr g ''module'' = Inr (AStr m)
      \<and> (get_attr g ''recon'' = Inr (AStr n) \<or> get_attr g ''class'' = Inr (AStr n)))"
| "sanctioned g (New m n) =
     (get_attr g ''module'' = Inr (AStr m) \<and> get_attr g ''class'' = Inr (AStr n))"
| "sanctioned g (Call m n args) =
     (get_attr g ''module'' = Inr (AStr m) \<and> get_attr g ''recon'' = Inr (AStr n))"

definition ok :: "node \<Rightarrow> event list \<Rightarrow> bool" where
  "ok hdf evs \<longleftrightarrow> (\<forall>e \<in> set evs. \<exists>g \<in> set (subnodes hdf). sanctioned g e)"

definition all_ok :: "node \<Rightarrow> bool" where
  "all_ok hdf \<longleftrightarrow>
     (\<forall>rt name. ok hdf (fst (hdf2obj rt name hdf)))
     \<and> (\<forall>rt name skip its. ok hdf (fst (dictitems_from rt name hdf skip its)))
     \<and> (\<forall>rt name idx. ok hdf (fst (listitems_from rt name hdf idx)))"

text \<open>
  A file that has been saved into twice: \<open>foo\<close> into the new file, \<open>bar\<close> appended.
\<close>

definition two_objects :: world where
  "two_objects =
     fst (h5save (fst (h5save \<lparr>disk = [], opened = []\<rparr> ''f.h5'' (Scalar (DInt 64) ''1'')
                         (Some (PyStr ''foo'')) Truncate))
            ''f.h5'' (Scalar (DInt 64) ''2'') (Some (PyStr ''bar'')) Append)"

section \<open>Auxiliary facts\<close>

lemmas enc_defs = isscalar_def is_ndarray_def array_dtype_def objarray_as_list_def
  try_reduce_def common_container_def state_of_def attrs_create_def set_attr_def with_group_def
  isinstance_seq_def isinstance_dict_def create_dataset_def builtin_def

lemmas dec_defs = has_attr_def get_attr_def getitem_def names_def lift_def raises_def returns_def
  py_len_def iter_names_def child_name_def asobjarray_def

lemma digit_inj: "\<forall>d<10. \<forall>e<10. digit d = digit e \<longrightarrow> d = e"
  unfolding digit_def
  by (simp add: eval_nat_numeral All_less_Suc)

lemma py_str_nonempty: "py_str n \<noteq> []"
  by (subst py_str.simps) simp

lemma py_str_inj: "py_str m = py_str n \<Longrightarrow> m = n"
proof (induction m arbitrary: n rule: py_str.induct)
  case (1 m)
  show ?case
  proof (cases "m < 10")
    case True
    show ?thesis
    proof (cases "n < 10")
      case n: True
      from "1.prems" True n have "digit m = digit n"
        by (simp add: py_str.simps)
      with True n digit_inj show ?thesis by blast
    next
      case False
      with "1.prems" True have "[digit m] = py_str (n div 10) @ [digit (n mod 10)]"
        by (simp add: py_str.simps)
      then show ?thesis using py_str_nonempty [of "n div 10"] by simp
    qed
  next
    case False
    show ?thesis
    proof (cases "n < 10")
      case True
      with "1.prems" False have "py_str (m div 10) @ [digit (m mod 10)] = [digit n]"
        by (simp add: py_str.simps)
      then show ?thesis using py_str_nonempty [of "m div 10"] by simp
    next
      case n: False
      from "1.prems" False n
      have "py_str (m div 10) @ [digit (m mod 10)] = py_str (n div 10) @ [digit (n mod 10)]"
        by (simp add: py_str.simps)
      then have a: "py_str (m div 10) = py_str (n div 10)"
        and b: "digit (m mod 10) = digit (n mod 10)"
        by simp_all
      from "1.IH" [OF False a] have "m div 10 = n div 10" .
      moreover from b digit_inj have "m mod 10 = n mod 10"
        by (metis mod_less_divisor zero_less_numeral)
      ultimately show ?thesis by (metis div_mult_mod_eq)
    qed
  qed
qed

lemma obj2hdf_direct:
  "isscalar obj \<or> (is_ndarray obj \<and> array_dtype obj \<noteq> DObject)
     \<Longrightarrow> obj2hdf w hdf obj name = create_dataset w hdf name obj"
  by (simp add: obj2hdf.simps)

lemma hdf2obj_Dataset:
  "hdf2obj rt name (Dataset dt sh xs) =
     (if sh = [] then (case xs of [] \<Rightarrow> raises (ValueError ''empty selection'')
                       | x # _ \<Rightarrow> returns (Scalar dt x))
      else returns (NDArray dt sh xs))"
  by (simp add: hdf2obj.simps)

lemmas file_defs = h5save_def h5load_def File_def close_def write_disk_def on_disk_def Let_def

subsection \<open>Sequences and mappings in the store\<close>

lemma length_numbered [simp]: "length (numbered i cs) = length cs"
  by (induction cs arbitrary: i) simp_all

lemma map_of_numbered:
  "j < length cs \<Longrightarrow> map_of (numbered i cs) (py_str (i + j)) = Some (cs ! j)"
proof (induction cs arbitrary: i j)
  case Nil
  then show ?case by simp
next
  case (Cons c cs)
  show ?case
  proof (cases j)
    case 0
    then show ?thesis by simp
  next
    case (Suc k)
    have "py_str (i + Suc k) \<noteq> py_str i"
      using py_str_inj [of "i + Suc k" i] by auto
    moreover have "map_of (numbered (Suc i) cs) (py_str (Suc i + k)) = Some (cs ! k)"
      using Cons.IH [of k "Suc i"] Cons.prems Suc by simp
    ultimately show ?thesis using Suc by simp
  qed
qed

lemma store_seq_stores:
  assumes "list_all2 stores xs cs"
    and "\<forall>j < length xs. py_str (i + j) \<notin> set (map fst ch)"
  shows "store_seq True (Group a ch) xs i = (Group a (ch @ numbered i cs), None)"
  using assms
proof (induction xs cs arbitrary: ch i rule: list_all2_induct)
  case Nil
  then show ?case by simp
next
  case (Cons x xs c cs)
  have fresh: "py_str i \<notin> set (map fst ch)"
    using Cons.prems by force
  have step: "obj2hdf True (Group a ch) x (Some (PyStr (py_str i))) = (Group a (ch @ [(py_str i, c)]), None)"
    using Cons.hyps(1) fresh by (simp add: stores_def)
  have "\<forall>j<length xs. py_str (Suc i + j) \<notin> set (map fst (ch @ [(py_str i, c)]))"
  proof (intro allI impI)
    fix j assume "j < length xs"
    then have "py_str (i + Suc j) \<notin> set (map fst ch)"
      using Cons.prems by (metis Suc_less_eq length_Cons)
    moreover have "py_str (Suc i + j) \<noteq> py_str i"
      using py_str_inj [of "Suc i + j" i] by auto
    ultimately show "py_str (Suc i + j) \<notin> set (map fst (ch @ [(py_str i, c)]))"
      by simp
  qed
  from Cons.IH [OF this]
  have "store_seq True (Group a (ch @ [(py_str i, c)])) xs (Suc i)
       = (Group a ((ch @ [(py_str i, c)]) @ numbered (Suc i) cs), None)" .
  then show ?case
    using step by simp
qed

lemma listitems_from_numbered:
  assumes "list_all2 decodes cs xs" and "\<forall>j \<in> set idx. j < length cs"
  shows "listitems_from rt name (Group a (numbered 0 cs)) idx = ([], Inr (map (\<lambda>j. xs ! j) idx))"
  using assms(2)
proof (induction idx)
  case Nil
  then show ?case by (simp add: returns_def)
next
  case (Cons j idx)
  then have j: "j < length cs" by simp
  have "getitem (Group a (numbered 0 cs)) (py_str j) = Inr (cs ! j)"
    using map_of_numbered [OF j, of 0] by (simp add: getitem_def)
  moreover have "hdf2obj rt (child_name name (py_str j)) (cs ! j) = ([], Inr (xs ! j))"
    using assms(1) j by (simp add: list_all2_conv_all_nth decodes_def)
  ultimately show ?case using Cons by (simp add: returns_def)
qed

lemma hdf_listitems_numbered:
  assumes "list_all2 decodes cs xs"
  shows "hdf_listitems_to_obj rt name (Group a (numbered 0 cs)) = ([], Inr xs)"
proof -
  have "length cs = length xs" using assms by (rule list_all2_lengthD)
  then have "map (\<lambda>j. xs ! j) [0..<length cs] = xs"
    by (simp add: map_nth)
  then show ?thesis
    using listitems_from_numbered [OF assms, of "[0..<length cs]" rt name a]
    by (simp add: py_len_def)
qed


lemma store_map_stores:
  assumes "list_all2 stores_item kvs chs"
    and "distinct (map fst chs)" and "set (map fst chs) \<inter> set (map fst ch) = {}"
  shows "store_map True (Group a ch) kvs = (Group a (ch @ chs), None)"
  using assms
proof (induction kvs chs arbitrary: ch rule: list_all2_induct)
  case Nil
  then show ?case by simp
next
  case (Cons kv kvs sc chs)
  obtain k v where kv: "kv = (k, v)" by (cases kv)
  obtain s c where sc: "sc = (s, c)" by (cases sc)
  have k: "k = PyStr s" and st: "stores v c"
    using Cons.hyps(1) by (simp_all add: stores_item_def kv sc)
  have "s \<notin> set (map fst ch)" using Cons.prems sc by auto
  then have step: "obj2hdf True (Group a ch) v (Some (PyStr s)) = (Group a (ch @ [(s, c)]), None)"
    using st by (simp add: stores_def)
  have "store_map True (Group a (ch @ [(s, c)])) kvs = (Group a ((ch @ [(s, c)]) @ chs), None)"
    using Cons.prems sc by (intro Cons.IH) auto
  then show ?case using step by (simp add: kv sc k)
qed

lemma py_dict_distinct: "distinct (map fst kvs) \<Longrightarrow> py_dict kvs = kvs"
  by (induction kvs) auto

lemma dictitems_from_decodes:
  assumes "list_all2 decodes_item its kvs" and "distinct (map fst chs)" and "set its \<subseteq> set chs"
  shows "dictitems_from rt name (Group a chs) [] (map fst its) = ([], Inr kvs)"
  using assms(1,3)
proof (induction its kvs rule: list_all2_induct)
  case Nil
  then show ?case by (simp add: returns_def)
next
  case (Cons sc its kv kvs)
  obtain k v where kv: "kv = (k, v)" by (cases kv)
  obtain s c where sc: "sc = (s, c)" by (cases sc)
  have k: "k = PyStr s" and d: "decodes c v"
    using Cons.hyps(1) by (simp_all add: decodes_item_def kv sc)
  have "map_of chs s = Some c"
    using Cons.prems assms(2) sc by simp
  then have "getitem (Group a chs) s = Inr c" by (simp add: getitem_def)
  moreover have "hdf2obj rt (child_name name s) c = ([], Inr v)"
    using d by (simp add: decodes_def)
  moreover have "dictitems_from rt name (Group a chs) [] (map fst its) = ([], Inr kvs)"
    using Cons by simp
  ultimately show ?case by (simp add: returns_def kv sc k)
qed

lemma hdf_dictitems_decodes:
  assumes "list_all2 decodes_item chs kvs" and "distinct (map fst chs)"
  shows "hdf_dictitems_to_obj rt name (Group a chs) [] = ([], Inr kvs)"
proof -
  have "map fst kvs = map (\<lambda>s. PyStr s) (map fst chs)"
    using assms(1) by (induction chs kvs rule: list_all2_induct) (simp_all add: decodes_item_def)
  then have "distinct (map fst kvs)"
    using assms(2) by (simp add: distinct_map inj_on_def)
  then show ?thesis
    using dictitems_from_decodes [OF assms(1,2), of rt name a]
    by (simp add: iter_names_def returns_def py_dict_distinct)
qed



lemma ex_list_all2: "(\<forall>x \<in> set xs. \<exists>y. R x y) \<Longrightarrow> \<exists>ys. list_all2 R xs ys"
proof (induction xs)
  case Nil
  then show ?case by simp
next
  case (Cons x xs)
  then obtain y ys where "R x y" "list_all2 R xs ys" by auto
  then have "list_all2 R (x # xs) (y # ys)" by simp
  then show ?case by blast
qed

lemma store_seq_empty:
  assumes "list_all2 faithful xs cs"
  shows "store_seq True (Group [] []) xs 0 = (Group [] (numbered 0 cs), None)"
proof -
  have "list_all2 stores xs cs"
    using assms by (simp add: list_all2_conv_all_nth faithful_def)
  then show ?thesis
    using store_seq_stores [of xs cs 0 "[]" "[]"] by simp
qed

lemma stores_seq_group:
  assumes "list_all2 faithful xs cs" and "n \<notin> set (map fst ch)"
  shows "with_group True (Group a ch) (PyStr n) (\<lambda>items. store_seq True items xs 0)
     = (Group a (ch @ [(n, Group [] (numbered 0 cs))]), None)"
proof -
  have "list_all2 stores xs cs"
    using assms(1) by (simp add: list_all2_conv_all_nth faithful_def)
  then have "store_seq True (Group [] []) xs 0 = (Group [] (numbered 0 cs), None)"
    using store_seq_stores [of xs cs 0 "[]" "[]"] by simp
  then show ?thesis using assms(2) by (simp add: with_group_def)
qed

lemma decodes_seq_group:
  assumes "list_all2 faithful xs cs"
  shows "hdf_listitems_to_obj rt name (Group a (numbered 0 cs)) = ([], Inr xs)"
proof -
  have "list_all2 decodes cs xs"
    using assms(1) by (simp add: list_all2_conv_all_nth faithful_def)
  then show ?thesis by (rule hdf_listitems_numbered)
qed

lemma faithfulI:
  assumes "\<And>a ch n. n \<notin> set (map fst ch) \<Longrightarrow>
       obj2hdf True (Group a ch) v (Some (PyStr n)) = (Group a (ch @ [(n, c)]), None)"
    and "isscalar v \<or> (is_ndarray v \<and> array_dtype v \<noteq> DObject)
       \<or> obj2hdf True (Group [] []) v None = (c, None)"
    and "\<And>rt name. hdf2obj rt name c = ([], Inr v)"
  shows "faithful v c"
  using assms by (simp add: faithful_def stores_def stores_top_def decodes_def)

lemma faithful_list:
  assumes "list_all2 faithful xs cs"
  shows "faithful (PyList xs)
     (Group [(''class'', AStr ''list''), (''module'', AStr ''__builtin__'')]
        [(''items'', Group [] (numbered 0 cs))])"
proof (rule faithfulI)
  show "obj2hdf True (Group a ch) (PyList xs) (Some (PyStr n))
      = (Group a (ch @ [(n, Group [(''class'', AStr ''list''), (''module'', AStr ''__builtin__'')]
        [(''items'', Group [] (numbered 0 cs))])]), None)"
    if "n \<notin> set (map fst ch)" for a ch n
    using that stores_seq_group [OF assms, of "''items''" "[]"]
    by (simp add: obj2hdf.simps enc_defs)
  show "isscalar (PyList xs) \<or> (is_ndarray (PyList xs) \<and> array_dtype (PyList xs) \<noteq> DObject)
      \<or> obj2hdf True (Group [] []) (PyList xs) None = (Group [(''class'', AStr ''list''), (''module'', AStr ''__builtin__'')]
        [(''items'', Group [] (numbered 0 cs))], None)"
    using store_seq_empty [OF assms]
    by (simp add: obj2hdf.simps enc_defs)
  show "hdf2obj rt name (Group [(''class'', AStr ''list''), (''module'', AStr ''__builtin__'')]
        [(''items'', Group [] (numbered 0 cs))]) = ([], Inr (PyList xs))" for rt name
    using decodes_seq_group [OF assms]
    by (simp add: hdf2obj.simps dec_defs)
qed

lemma faithful_tuple:
  assumes "list_all2 faithful xs cs"
  shows "faithful (PyTuple xs)
     (Group [(''class'', AStr ''tuple''), (''module'', AStr ''__builtin__'')]
        [(''items'', Group [] (numbered 0 cs))])"
proof (rule faithfulI)
  show "obj2hdf True (Group a ch) (PyTuple xs) (Some (PyStr n))
      = (Group a (ch @ [(n, Group [(''class'', AStr ''tuple''), (''module'', AStr ''__builtin__'')]
        [(''items'', Group [] (numbered 0 cs))])]), None)"
    if "n \<notin> set (map fst ch)" for a ch n
    using that stores_seq_group [OF assms, of "''items''" "[]"]
    by (simp add: obj2hdf.simps enc_defs)
  show "isscalar (PyTuple xs) \<or> (is_ndarray (PyTuple xs) \<and> array_dtype (PyTuple xs) \<noteq> DObject)
      \<or> obj2hdf True (Group [] []) (PyTuple xs) None = (Group [(''class'', AStr ''tuple''), (''module'', AStr ''__builtin__'')]
        [(''items'', Group [] (numbered 0 cs))], None)"
    using store_seq_empty [OF assms]
    by (simp add: obj2hdf.simps enc_defs)
  show "hdf2obj rt name (Group [(''class'', AStr ''tuple''), (''module'', AStr ''__builtin__'')]
        [(''items'', Group [] (numbered 0 cs))]) = ([], Inr (PyTuple xs))" for rt name
    using decodes_seq_group [OF assms]
    by (simp add: hdf2obj.simps dec_defs)
qed

lemma faithful_objarray:
  assumes "list_all2 faithful es cs"
  shows "faithful (ObjArray [length es] es)
     (Group [(''is_objarray'', ABool True), (''class'', AStr ''list''),
             (''module'', AStr ''__builtin__'')]
        [(''items'', Group [] (numbered 0 cs))])"
proof (rule faithfulI)
  show "obj2hdf True (Group a ch) (ObjArray [length es] es) (Some (PyStr n))
      = (Group a (ch @ [(n, Group [(''is_objarray'', ABool True), (''class'', AStr ''list''),
             (''module'', AStr ''__builtin__'')]
        [(''items'', Group [] (numbered 0 cs))])]), None)"
    if "n \<notin> set (map fst ch)" for a ch n
    using that stores_seq_group [OF assms, of "''items''" "[]"]
    by (simp add: obj2hdf.simps enc_defs)
  show "isscalar (ObjArray [length es] es) \<or> (is_ndarray (ObjArray [length es] es) \<and> array_dtype (ObjArray [length es] es) \<noteq> DObject)
      \<or> obj2hdf True (Group [] []) (ObjArray [length es] es) None = (Group [(''is_objarray'', ABool True), (''class'', AStr ''list''),
             (''module'', AStr ''__builtin__'')]
        [(''items'', Group [] (numbered 0 cs))], None)"
    using store_seq_empty [OF assms]
    by (simp add: obj2hdf.simps enc_defs)
  show "hdf2obj rt name (Group [(''is_objarray'', ABool True), (''class'', AStr ''list''),
             (''module'', AStr ''__builtin__'')]
        [(''items'', Group [] (numbered 0 cs))]) = ([], Inr (ObjArray [length es] es))" for rt name
    using decodes_seq_group [OF assms]
    by (simp add: hdf2obj.simps dec_defs)
qed

lemma faithful_dict:
  assumes "list_all2 (\<lambda>kv sc. fst kv = PyStr (fst sc) \<and> faithful (snd kv) (snd sc)) kvs chs"
    and "distinct (map fst kvs)"
  shows "faithful (PyDict kvs)
     (Group [(''class'', AStr ''dict''), (''module'', AStr ''__builtin__'')]
        [(''items'', Group [] chs)])"
proof (rule faithfulI)
  have keys: "map fst kvs = map (\<lambda>s. PyStr s) (map fst chs)"
    using assms(1) by (induction kvs chs rule: list_all2_induct) simp_all
  then have "distinct (map (\<lambda>s. PyStr s) (map fst chs))"
    using assms(2) by simp
  then have d: "distinct (map fst chs)"
    by (auto simp: distinct_map inj_on_def)
  have st: "list_all2 stores_item kvs chs"
    using assms(1) by (simp add: list_all2_conv_all_nth stores_item_def faithful_def)
  have de: "list_all2 decodes_item chs kvs"
    using assms(1) by (simp add: list_all2_conv_all_nth decodes_item_def faithful_def)
  have sm: "store_map True (Group [] []) kvs = (Group [] chs, None)"
    using store_map_stores [OF st d, of "[]" "[]"] by simp
  then show "obj2hdf True (Group a ch) (PyDict kvs) (Some (PyStr n))
      = (Group a (ch @ [(n, Group [(''class'', AStr ''dict''), (''module'', AStr ''__builtin__'')]
        [(''items'', Group [] chs)])]), None)"
    if "n \<notin> set (map fst ch)" for a ch n
    using that by (simp add: obj2hdf.simps enc_defs)
  from sm show "isscalar (PyDict kvs) \<or> (is_ndarray (PyDict kvs) \<and> array_dtype (PyDict kvs) \<noteq> DObject)
      \<or> obj2hdf True (Group [] []) (PyDict kvs) None
        = (Group [(''class'', AStr ''dict''), (''module'', AStr ''__builtin__'')]
             [(''items'', Group [] chs)], None)"
    by (simp add: obj2hdf.simps enc_defs)
  show "hdf2obj rt name (Group [(''class'', AStr ''dict''), (''module'', AStr ''__builtin__'')]
        [(''items'', Group [] chs)]) = ([], Inr (PyDict kvs))" for rt name
    using hdf_dictitems_decodes [OF de d]
    by (simp add: hdf2obj.simps dec_defs)
qed

lemma plain_faithful: "plain v \<Longrightarrow> \<exists>c. faithful v c"
proof (induction v)
  case (Scalar dt b)
  then have "faithful (Scalar dt b) (Dataset dt [] [b])"
    by (intro faithfulI) (simp_all add: obj2hdf_direct enc_defs hdf2obj_Dataset dec_defs)
  then show ?case ..
next
  case (NDArray dt sh xs)
  then have "faithful (NDArray dt sh xs) (Dataset dt sh xs)"
    by (intro faithfulI) (simp_all add: obj2hdf_direct enc_defs hdf2obj_Dataset dec_defs)
  then show ?case ..
next
  case (ObjArray sh es)
  then have "\<forall>e \<in> set es. \<exists>c. faithful e c" and sh: "sh = [length es]" by auto
  then obtain cs where "list_all2 faithful es cs"
    using ex_list_all2 by blast
  from faithful_objarray [OF this] show ?case unfolding sh ..
next
  case PyNone
  have "faithful PyNone (Group [(''class'', AStr ''NoneType''), (''module'', AStr ''__builtin__'')] [])"
    by (intro faithfulI) (simp_all add: obj2hdf.simps enc_defs hdf2obj.simps dec_defs)
  then show ?case ..
next
  case (PyList xs)
  then have "\<forall>x \<in> set xs. \<exists>c. faithful x c" by auto
  then obtain cs where "list_all2 faithful xs cs"
    using ex_list_all2 by blast
  from faithful_list [OF this] show ?case ..
next
  case (PyTuple xs)
  then have "\<forall>x \<in> set xs. \<exists>c. faithful x c" by auto
  then obtain cs where "list_all2 faithful xs cs"
    using ex_list_all2 by blast
  from faithful_tuple [OF this] show ?case ..
next
  case (PyDict kvs)
  have "\<forall>kv \<in> set kvs. \<exists>sc. fst kv = PyStr (fst sc) \<and> faithful (snd kv) (snd sc)"
  proof
    fix kv assume kv: "kv \<in> set kvs"
    with PyDict.prems have "is_str (fst kv)" and "plain (snd kv)" by auto
    from this(1) obtain s where s: "fst kv = PyStr s"
      by (cases "fst kv" rule: is_str.cases) auto
    have "snd kv \<in> Basic_BNFs.snds kv" by (cases kv) simp
    from PyDict.IH(2) [OF kv this \<open>plain (snd kv)\<close>] obtain c where "faithful (snd kv) c" ..
    with s have "fst kv = PyStr (fst (s, c)) \<and> faithful (snd kv) (snd (s, c))" by simp
    then show "\<exists>sc. fst kv = PyStr (fst sc) \<and> faithful (snd kv) (snd sc)" ..
  qed
  then obtain chs
    where "list_all2 (\<lambda>kv sc. fst kv = PyStr (fst sc) \<and> faithful (snd kv) (snd sc)) kvs chs"
    using ex_list_all2 [of kvs "\<lambda>kv sc. fst kv = PyStr (fst sc) \<and> faithful (snd kv) (snd sc)"]
    by blast
  from faithful_dict [OF this] PyDict.prems show ?case by auto
qed simp_all

subsection \<open>Keys and names\<close>

lemma dictitems_from_keys:
  "dictitems_from rt name hdf skip its = (ev, Inr d) \<Longrightarrow> \<forall>kv \<in> set d. \<exists>s \<in> set its. fst kv = PyStr s"
proof (induction its arbitrary: ev d)
  case Nil
  then show ?case by (simp add: returns_def)
next
  case (Cons item rest)
  show ?case
  proof (cases "item \<in> set skip")
    case True
    with Cons show ?thesis by auto
  next
    case False
    with Cons.prems obtain c where c: "getitem hdf item = Inr c"
      by (auto simp: raises_def split: sum.splits)
    obtain ev1 r1 where r1: "hdf2obj rt (child_name name item) c = (ev1, r1)" by force
    obtain ev2 r2 where r2: "dictitems_from rt name hdf skip rest = (ev2, r2)" by force
    from Cons.prems False c r1 r2 obtain v vs where "r1 = Inr v" "r2 = Inr vs" "d = (PyStr item, v) # vs"
      by (cases r1; cases r2) (auto simp: returns_def)
    with Cons.IH [of ev2 vs] r2 show ?thesis by auto
  qed
qed

lemma py_dict_subset: "set (py_dict kvs) \<subseteq> set kvs"
  by (induction kvs) (auto split: if_splits)

lemma hdf_dictitems_keys:
  assumes "hdf_dictitems_to_obj rt name hdf skip = (ev, Inr d)"
  shows "\<forall>kv \<in> set d. \<exists>s \<in> set (names hdf). fst kv = PyStr s"
proof -
  from assms obtain its where its: "iter_names hdf = Inr its"
    by (auto simp: raises_def split: sum.splits)
  obtain ev1 r1 where r1: "dictitems_from rt name hdf skip its = (ev1, r1)" by force
  with assms its obtain pairs where p: "r1 = Inr pairs" "d = py_dict pairs"
    by (cases r1) (auto simp: returns_def)
  have "set its \<subseteq> set (names hdf)"
    using its by (cases hdf) (auto simp: iter_names_def names_def split: list.splits if_splits)
  with dictitems_from_keys [OF r1 [unfolded p(1)]] py_dict_subset [of pairs] p(2)
  show ?thesis by blast
qed

lemma obj2hdf_bad_name:
  "\<not> is_str k \<Longrightarrow> snd (obj2hdf w hdf v (Some k)) \<noteq> None"
proof -
  assume "\<not> is_str k"
  then have k: "as_name k = Inl (TypeError ''expected string'')"
    by (cases k rule: is_str.cases) auto
  show ?thesis
    by (simp add: obj2hdf.simps create_dataset_def with_group_def k split: node.splits sum.splits)
qed

lemma snd_andthen:
  "snd (andthen r f) = (case snd r of None \<Rightarrow> snd (f (fst r)) | Some e \<Rightarrow> Some e)"
  by (cases r) (auto simp: andthen_def split: option.splits)

lemma snd_with_group:
  "snd (with_group w hdf name body) =
     (case hdf of
        Dataset _ _ _ \<Rightarrow> Some (AttributeError ''create_group'')
      | Group a ch \<Rightarrow>
          if \<not> w then Some (IOError ''store is read-only'')
          else (case as_name name of
              Inl e \<Rightarrow> Some e
            | Inr s \<Rightarrow>
                if s \<in> set (map fst ch) then Some (ValueError ''name already exists'')
                else snd (body (Group [] []))))"
  by (auto simp: with_group_def split: node.splits sum.splits prod.splits)

lemma store_map_bad_key:
  "\<exists>kv \<in> set kvs. \<not> is_str (fst kv) \<Longrightarrow> snd (store_map w items kvs) \<noteq> None"
proof (induction kvs arbitrary: items)
  case Nil
  then show ?case by simp
next
  case (Cons kv kvs)
  obtain k v where kv: "kv = (k, v)" by (cases kv)
  show ?case
  proof (cases "is_str k")
    case False
    then show ?thesis
      using obj2hdf_bad_name [of k w items v] by (auto simp: kv snd_andthen split: option.splits)
  next
    case True
    with Cons.prems kv have "\<exists>kv \<in> set kvs. \<not> is_str (fst kv)" by auto
    then have "\<And>s. snd (store_map w s kvs) \<noteq> None" by (rule Cons.IH)
    then show ?thesis by (auto simp: kv snd_andthen split: option.splits)
  qed
qed

lemma obj2hdf_dict_bad_key:
  assumes "\<exists>kv \<in> set kvs. \<not> is_str (fst kv)"
  shows "snd (obj2hdf w hdf (PyDict kvs) name) \<noteq> None"
  using store_map_bad_key [OF assms, of w "Group [] []"]
  by (cases name)
    (auto simp: obj2hdf.simps isscalar_def is_ndarray_def objarray_as_list_def try_reduce_def
      common_container_def isinstance_seq_def isinstance_dict_def builtin_def
      snd_andthen snd_with_group simp del: andthen_simps
      split: option.splits node.splits sum.splits)

subsection \<open>The uses of the interpreter\<close>

lemma self_subnode: "hdf \<in> set (subnodes hdf)"
  by (cases hdf) simp_all

lemma subnodes_child:
  "getitem hdf k = Inr c \<Longrightarrow> set (subnodes c) \<subseteq> set (subnodes hdf)"
  by (cases hdf) (auto simp: getitem_def split: option.splits dest!: map_of_SomeD)

lemma ok_child: "getitem hdf k = Inr c \<Longrightarrow> ok c evs \<Longrightarrow> ok hdf evs"
  using subnodes_child [of hdf k c] by (auto simp: ok_def)

lemma ok_nil [simp]: "ok hdf []" "ok hdf (fst (returns v))" "ok hdf (fst (raises e))" "ok hdf (fst (lift r))"
  by (simp_all add: ok_def returns_def raises_def lift_def)

lemma ok_ebind:
  "ok hdf (fst r) \<Longrightarrow> (\<And>v. snd r = Inr v \<Longrightarrow> ok hdf (fst (f v))) \<Longrightarrow> ok hdf (fst (ebind r f))"
  by (cases r) (auto simp: ebind_def ok_def split: sum.splits prod.splits)

lemma ok_import:
  "get_attr hdf ''module'' = Inr md \<Longrightarrow> get_attr hdf ''recon'' = Inr nm \<or> get_attr hdf ''class'' = Inr nm
     \<Longrightarrow> ok hdf (fst (import_from rt md nm))"
  using self_subnode [of hdf]
  by (auto simp: import_from_def ok_def raises_def split: attrval.splits option.splits)

lemma import_from_str:
  "snd (import_from rt md nm) = Inr en \<Longrightarrow> \<exists>m n. md = AStr m \<and> nm = AStr n"
  by (auto simp: import_from_def raises_def split: attrval.splits option.splits)

lemma ok_call:
  "get_attr hdf ''module'' = Inr (AStr m) \<Longrightarrow> get_attr hdf ''recon'' = Inr (AStr n)
     \<Longrightarrow> ok hdf (fst (call_factory (AStr m) (AStr n) en args))"
  using self_subnode [of hdf] by (auto simp: call_factory_def ok_def)

lemma ok_new:
  "get_attr hdf ''module'' = Inr (AStr m) \<Longrightarrow> get_attr hdf ''class'' = Inr (AStr n)
     \<Longrightarrow> ok hdf (fst (new_instance (AStr m) (AStr n) en))"
  using self_subnode [of hdf] by (auto simp: new_instance_def ok_def raises_def split: option.splits)


lemma ok_dictitems_from:
  assumes "\<And>k c rt name. getitem hdf k = Inr c \<Longrightarrow> ok c (fst (hdf2obj rt name c))"
  shows "ok hdf (fst (dictitems_from rt name hdf skip its))"
proof (induction its)
  case Nil
  show ?case by simp
next
  case (Cons item rest)
  show ?case
  proof (cases "item \<in> set skip")
    case True
    with Cons show ?thesis by simp
  next
    case False
    show ?thesis
    proof (cases "getitem hdf item")
      case (Inl e)
      with False show ?thesis by simp
    next
      case (Inr c)
      have "ok hdf (fst (hdf2obj rt (child_name name item) c))"
        using assms [OF Inr] Inr by (rule ok_child [rotated])
      with False Inr Cons show ?thesis
        by (auto intro!: ok_ebind)
    qed
  qed
qed

lemma ok_listitems_from:
  assumes "\<And>k c rt name. getitem hdf k = Inr c \<Longrightarrow> ok c (fst (hdf2obj rt name c))"
  shows "ok hdf (fst (listitems_from rt name hdf idx))"
proof (induction idx)
  case Nil
  show ?case by simp
next
  case (Cons i rest)
  show ?case
  proof (cases "getitem hdf (py_str i)")
    case (Inl e)
    then show ?thesis by simp
  next
    case (Inr c)
    have "ok hdf (fst (hdf2obj rt (child_name name (py_str i)) c))"
      using assms [OF Inr] Inr by (rule ok_child [rotated])
    with Inr Cons show ?thesis
      by (auto intro!: ok_ebind)
  qed
qed

lemma all_ok_wrappers:
  assumes "all_ok c"
  shows "ok c (fst (hdf_dictitems_to_obj rt name c skip))"
    and "ok c (fst (hdf_listitems_to_obj rt name c))"
    and "ok c (fst (hdf_tupleitems_to_obj rt name c))"
  using assms
  by (auto simp: all_ok_def intro!: ok_ebind split: sum.splits)

lemma ok_if: "(c \<Longrightarrow> ok hdf (fst x)) \<Longrightarrow> (\<not> c \<Longrightarrow> ok hdf (fst y)) \<Longrightarrow> ok hdf (fst (if c then x else y))"
  by simp

lemma ok_getitem:
  "(\<And>c. getitem hdf k = Inr c \<Longrightarrow> ok hdf (fst (f c)))
     \<Longrightarrow> ok hdf (fst (case getitem hdf k of Inl e \<Rightarrow> raises e | Inr c \<Rightarrow> f c))"
  by (cases "getitem hdf k") simp_all

lemma snd_lift: "snd (lift r) = Inr v \<Longrightarrow> r = Inr v"
  by (simp add: lift_def)

lemma ok_hdf2obj_group:
  assumes w: "\<And>k c rt name skip. getitem (Group a ch) k = Inr c \<Longrightarrow>
      ok (Group a ch) (fst (hdf_dictitems_to_obj rt name c skip))
      \<and> ok (Group a ch) (fst (hdf_listitems_to_obj rt name c))
      \<and> ok (Group a ch) (fst (hdf_tupleitems_to_obj rt name c))"
  shows "ok (Group a ch) (fst (hdf2obj rt name (Group a ch)))"
proof -
  let ?hdf = "Group a ch"
  show ?thesis
  proof (subst hdf2obj.simps, simp only: node.case, intro ok_if)
    show "ok ?hdf (fst (raises (no_class_info name)))" by simp
  next
    show "ok ?hdf (fst (ebind (lift (get_attr ?hdf ''recon'')) (\<lambda>recon.
          ebind (lift (get_attr ?hdf ''module'')) (\<lambda>md.
          if md = AStr ''__builtin__'' then raises (builtin_recon recon)
          else
            ebind (import_from rt md recon) (\<lambda>en.
            ebind (if ''rcargs'' \<in> set (names ?hdf)
                   then (case getitem ?hdf ''rcargs'' of
                           Inl e \<Rightarrow> raises e
                         | Inr args \<Rightarrow> hdf_tupleitems_to_obj rt (child_name name ''rcargs'') args)
                   else returns (PyTuple [])) (\<lambda>recon_args.
            call_factory md recon en (seq_items recon_args)))))))"
    proof (intro ok_ebind ok_if, goal_cases)
      case (4 recon md)
      then show ?case by (intro ok_import) (auto dest: snd_lift)
    next
      case (5 recon md en)
      show ?case by (intro ok_getitem) (simp add: w del: hdf_tupleitems_to_obj.simps hdf_listitems_to_obj.simps hdf_dictitems_to_obj.simps)
    next
      case (7 recon md en args)
      from 7(4) obtain m n where "md = AStr m" "recon = AStr n"
        using import_from_str by blast
      with 7 show ?case by (auto intro!: ok_call dest: snd_lift)
    qed simp_all
  next
    show "ok ?hdf (fst (ebind (lift (get_attr ?hdf ''class'')) (\<lambda>cls.
          ebind (lift (get_attr ?hdf ''module'')) (\<lambda>md.
          if \<not> md = AStr ''__builtin__'' then
            ebind (import_from rt md cls) (\<lambda>en.
            ebind (new_instance md cls en) (\<lambda>obj.
            ebind (if ''state'' \<in> set (names ?hdf)
                   then (case getitem ?hdf ''state'' of
                           Inl e \<Rightarrow> raises e
                         | Inr st \<Rightarrow>
                             ebind (hdf_dictitems_to_obj rt (child_name name ''state'') st [])
                               (\<lambda>d. returns (update_state obj d)))
                   else returns obj) (\<lambda>obj.
            if ''items'' \<in> set (names ?hdf) then
              (if isinstance_dict obj then
                 (case getitem ?hdf ''items'' of
                    Inl e \<Rightarrow> raises e
                  | Inr items \<Rightarrow>
                      ebind (hdf_dictitems_to_obj rt (child_name name ''items'') items [])
                        (\<lambda>d. returns (update_items obj d)))
               else raises (unhandled_container cls))
            else returns obj)))
          else
            if cls = AStr ''NoneType'' then returns PyNone
            else if cls = AStr ''tuple'' then
              (case getitem ?hdf ''items'' of
                 Inl e \<Rightarrow> raises e
               | Inr items \<Rightarrow> hdf_tupleitems_to_obj rt (child_name name ''items'') items)
            else if cls = AStr ''list'' then
              (case getitem ?hdf ''items'' of
                 Inl e \<Rightarrow> raises e
               | Inr items \<Rightarrow>
                   ebind (hdf_listitems_to_obj rt (child_name name ''items'') items) (\<lambda>l.
                   if has_attr ?hdf ''is_objarray'' then returns (asobjarray l)
                   else returns (PyList l)))
            else if cls = AStr ''dict'' then
              (case getitem ?hdf ''items'' of
                 Inl e \<Rightarrow> raises e
               | Inr items \<Rightarrow>
                   ebind (hdf_dictitems_to_obj rt (child_name name ''items'') items [])
                     (\<lambda>d. returns (PyDict d)))
            else raises (unhandled_builtin name)))))"
    proof (intro ok_ebind ok_if ok_getitem, goal_cases)
      case (3 cls md)
      then show ?case by (intro ok_import) (auto dest: snd_lift)
    next
      case (4 cls md en)
      from 4(4) obtain m n where "md = AStr m" "cls = AStr n"
        using import_from_str by blast
      with 4 show ?case by (auto intro!: ok_new dest: snd_lift)
    qed (simp_all add: w del: hdf_tupleitems_to_obj.simps hdf_listitems_to_obj.simps hdf_dictitems_to_obj.simps)
  qed
qed

lemma all_ok: "all_ok hdf"
proof (induction hdf rule: measure_induct_rule [of size])
  case (less hdf)
  have sub: "all_ok c" if "getitem hdf k = Inr c" for k c
    using less [OF getitem_size [OF that]] .
  have child: "ok c (fst (hdf2obj rt name c))" if "getitem hdf k = Inr c" for k c rt name
    using sub [OF that] by (simp add: all_ok_def)
  have w: "ok hdf (fst (hdf_dictitems_to_obj rt name c skip))
      \<and> ok hdf (fst (hdf_listitems_to_obj rt name c))
      \<and> ok hdf (fst (hdf_tupleitems_to_obj rt name c))"
    if "getitem hdf k = Inr c" for k c rt name skip
    using all_ok_wrappers [OF sub [OF that]] that by (auto intro: ok_child)
  have "ok hdf (fst (hdf2obj rt name hdf))" for rt name
  proof (cases hdf)
    case (Dataset dt sh xs)
    then show ?thesis by (simp add: hdf2obj_Dataset split: list.splits)
  next
    case (Group a ch)
    show ?thesis
      unfolding Group using w [unfolded Group] by (rule ok_hdf2obj_group)
  qed
  then show ?case
    using ok_dictitems_from [of hdf, OF child] ok_listitems_from [of hdf, OF child]
    by (simp add: all_ok_def)
qed

section \<open>Properties\<close>

subsection \<open>A group without class information\<close>

text \<open>
  C5. Decoding a group that has neither a \<open>class\<close> nor a \<open>recon\<close> attribute raises
  the RuntimeError of a malformed store, whatever else the group holds and whatever
  the interpreter offers, and the message carries the name of the group, its path in
  the store.
\<close>

theorem hdf2obj_no_class_info:
  assumes "\<not> has_attr (Group a ch) ''class''" and "\<not> has_attr (Group a ch) ''recon''"
  shows "hdf2obj rt name (Group a ch) =
    ([], Inl (RuntimeError
       (''Found hdf group without class instance information (group: '' @ name
        @ ''). This is a conceptual bug in the parser or the hdf writer. Please report.'')))"
  using assms by (simp add: hdf2obj.simps raises_def no_class_info_def)

theorem hdf2obj_no_class_info_witness:
  "hdf2obj (\<lambda>m. None) ''/foo'' (Group [(''is_objarray'', ABool True)] [(''items'', Group [] [])]) =
    ([], Inl (RuntimeError
       (''Found hdf group without class instance information (group: '' @ ''/foo''
        @ ''). This is a conceptual bug in the parser or the hdf writer. Please report.'')))"
  using hdf2obj_no_class_info [of "[(''is_objarray'', ABool True)]" "[(''items'', Group [] [])]"
      "\<lambda>m. None" "''/foo''"]
  by (simp add: has_attr_def)

subsection \<open>Objects with no reduction\<close>

text \<open>
  C3, as stated, fails: a function is no scalar, no array and no container, and its
  \<open>__reduce__\<close> raises TypeError, yet \<open>obj2hdf\<close> stores it and returns normally.
\<close>

theorem obj2hdf_function_returns:
  "\<not> isscalar (Opaque (PyClass ''function'' ''__builtin__'' BaseObject))
   \<and> \<not> is_ndarray (Opaque (PyClass ''function'' ''__builtin__'' BaseObject))
   \<and> py_reduce (Opaque (PyClass ''function'' ''__builtin__'' BaseObject))
       = Inl (TypeError ''cannot pickle objects'')
   \<and> obj2hdf True (Group [] []) (Opaque (PyClass ''function'' ''__builtin__'' BaseObject))
         (Some (PyStr ''f''))
       = (Group [] [(''f'', Group [(''class'', AStr ''function''),
                                   (''module'', AStr ''__builtin__'')] [])], None)"
  by (simp add: obj2hdf.simps enc_defs)

text \<open>
  C3, amended. For an object that is no scalar, no array and no container and whose
  \<open>__reduce__\<close> raises TypeError, \<open>obj2hdf\<close> returns normally: it has written a group
  that carries the \<open>class\<close> and \<open>module\<close> attributes and nothing else. The fatal
  error comes from \<open>hdf2obj\<close>: decoding that group raises the RuntimeError of an
  unhandled builtin type when the class is a builtin one other than NoneType, tuple,
  list and dict.
\<close>

theorem obj2hdf_opaque:
  assumes "n \<notin> set (map fst ch)" and "cls_base c = BaseObject"
  shows "obj2hdf True (Group a ch) (Opaque c) (Some (PyStr n))
       = (Group a (ch @ [(n, Group [(''class'', AStr (cls_name c)),
                                     (''module'', AStr (cls_module c))] [])]), None)
     \<and> (cls_module c = ''__builtin__''
          \<and> cls_name c \<notin> {''NoneType'', ''tuple'', ''list'', ''dict''}
        \<longrightarrow> hdf2obj rt name (Group [(''class'', AStr (cls_name c)),
                                     (''module'', AStr (cls_module c))] [])
          = ([], Inl (RuntimeError
              (''Found hdf group with a builtin type that is not handled by the parser (group: ''
               @ name @ ''). This is a conceptual bug in the parser. Please report.''))))"
  using assms
  by (simp add: obj2hdf.simps enc_defs hdf2obj.simps dec_defs unhandled_builtin_def)

theorem obj2hdf_opaque_witness:
  "obj2hdf True (Group [] []) (Opaque (PyClass ''file'' ''__builtin__'' BaseObject))
       (Some (PyStr ''log''))
     = (Group [] [(''log'', Group [(''class'', AStr ''file''),
                                   (''module'', AStr ''__builtin__'')] [])], None)
   \<and> hdf2obj (\<lambda>m. None) ''/log'' (Group [(''class'', AStr ''file''),
                                           (''module'', AStr ''__builtin__'')] [])
     = ([], Inl (RuntimeError
         (''Found hdf group with a builtin type that is not handled by the parser (group: ''
          @ ''/log'' @ ''). This is a conceptual bug in the parser. Please report.'')))"
  using obj2hdf_opaque [of "''log''" "[]" "PyClass ''file'' ''__builtin__'' BaseObject" "[]"
      "\<lambda>m. None" "''/log''"]
  by simp

subsection \<open>Factories of the built-in namespace\<close>

text \<open>
  C4, as stated, fails: a set reduces to the factory \<open>set\<close> of \<open>__builtin__\<close>, and
  \<open>obj2hdf\<close> writes the custom-replay node for it and returns normally.
\<close>

theorem obj2hdf_builtin_factory_returns:
  "py_reduce (Reducible (PyClass ''set'' ''__builtin__'' BaseObject) ''set'' ''__builtin__''
       [PyList []])
     = Inr (Pieces ''set'' ''__builtin__'' [PyList []] None)
   \<and> obj2hdf True (Group [] [])
       (Reducible (PyClass ''set'' ''__builtin__'' BaseObject) ''set'' ''__builtin__'' [PyList []])
       (Some (PyStr ''s''))
     = (Group [] [(''s'', Group [(''recon'', AStr ''set''), (''module'', AStr ''__builtin__'')]
         [(''rcargs'', Group []
            [(''0'', Group [(''class'', AStr ''list''), (''module'', AStr ''__builtin__'')]
                       [(''items'', Group [] [])])])])], None)"
  by (simp add: obj2hdf.simps enc_defs py_str.simps digit_def)

text \<open>
  C4, amended. For an object whose reduction yields a factory other than the default
  one, declared in the built-in namespace, \<open>obj2hdf\<close> does not refuse: when the
  arguments of the factory are stored, it has written the \<open>recon\<close> and \<open>module\<close>
  attributes and the \<open>rcargs\<close> group and returns normally. It is \<open>hdf2obj\<close> that
  signals "not supported (yet)", for that node, before it imports anything.
\<close>

theorem obj2hdf_builtin_factory:
  assumes "f \<noteq> ''_reconstructor''" and "store_seq True (Group [] []) args 0 = (rcargs, None)"
  shows "obj2hdf True (Group [] []) (Reducible c f ''__builtin__'' args) None
       = (Group [(''recon'', AStr f), (''module'', AStr ''__builtin__'')] [(''rcargs'', rcargs)],
          None)
     \<and> hdf2obj rt name
         (Group [(''recon'', AStr f), (''module'', AStr ''__builtin__'')] [(''rcargs'', rcargs)])
       = ([], Inl (NotImplementedError
           (''Built-in reconstructors are not supported (yet). Got: '' @ f @ ''.'')))"
  using assms
  by (simp add: obj2hdf.simps enc_defs hdf2obj.simps dec_defs builtin_recon_def)

theorem obj2hdf_builtin_factory_witness:
  "obj2hdf True (Group [] [])
       (Reducible (PyClass ''frozenset'' ''__builtin__'' BaseObject) ''frozenset'' ''__builtin__'' [])
       None
     = (Group [(''recon'', AStr ''frozenset''), (''module'', AStr ''__builtin__'')]
          [(''rcargs'', Group [] [])], None)
   \<and> hdf2obj (\<lambda>m. None) ''/''
       (Group [(''recon'', AStr ''frozenset''), (''module'', AStr ''__builtin__'')]
          [(''rcargs'', Group [] [])])
     = ([], Inl (NotImplementedError
         (''Built-in reconstructors are not supported (yet). Got: '' @ ''frozenset'' @ ''.'')))"
  using obj2hdf_builtin_factory [of "''frozenset''" "[]" "Group [] []"
      "PyClass ''frozenset'' ''__builtin__'' BaseObject" "\<lambda>m. None" "''/''"]
  by simp

subsection \<open>The file handle\<close>

text \<open>
  C8. Whatever \<open>h5save\<close> and \<open>h5load\<close> are given and however they end (a normal
  return, the ValueError of a name that is not there, an exception from encoding or
  decoding, or a file that could not be opened, in which case there is no handle), the
  handles open after the call are the handles that were open before it: the handle the
  call opened is closed.
\<close>

theorem handle_closed_on_every_path:
  "opened (fst (h5save wd filename data name md)) = opened wd
   \<and> opened (fst (h5load rt wd filename name)) = opened wd"
  by (auto simp: h5save_def h5load_def File_def close_def write_disk_def Let_def
      split: sum.splits prod.splits mode.splits option.splits)

subsection \<open>Loading a name\<close>




subsection \<open>Scalars and arrays\<close>




subsection \<open>Containers\<close>




subsection \<open>Arrays of objects\<close>

text \<open>
  C6, as stated, fails: \<open>list(obj)\<close> of a two-dimensional array of objects is the list
  of its rows, each stored as a flagged list in turn, and what comes back is a
  one-dimensional array of one-dimensional arrays. The array of shape \<open>(1, 1)\<close> that
  holds None comes back with shape \<open>(1,)\<close>.
\<close>

theorem hdf2obj_two_dim_objarray:
  "obj2hdf True (Group [] []) (ObjArray [1, 1] [PyNone]) (Some (PyStr ''a''))
     = (Group [] [(''a'',
          Group [(''is_objarray'', ABool True), (''class'', AStr ''list''),
                 (''module'', AStr ''__builtin__'')]
            [(''items'', Group []
               [(''0'', Group [(''is_objarray'', ABool True), (''class'', AStr ''list''),
                               (''module'', AStr ''__builtin__'')]
                  [(''items'', Group []
                     [(''0'', Group [(''class'', AStr ''NoneType''),
                                     (''module'', AStr ''__builtin__'')] [])])])])])], None)
   \<and> hdf2obj (\<lambda>m. None) ''/a''
         (Group [(''is_objarray'', ABool True), (''class'', AStr ''list''),
                 (''module'', AStr ''__builtin__'')]
            [(''items'', Group []
               [(''0'', Group [(''is_objarray'', ABool True), (''class'', AStr ''list''),
                               (''module'', AStr ''__builtin__'')]
                  [(''items'', Group []
                     [(''0'', Group [(''class'', AStr ''NoneType''),
                                     (''module'', AStr ''__builtin__'')] [])])])])])
     = ([], Inr (ObjArray [1] [ObjArray [1] [PyNone]]))
   \<and> ObjArray [1] [ObjArray [1] [PyNone]] \<noteq> ObjArray [1, 1] [PyNone]"
  by (simp add: obj2hdf.simps enc_defs py_str.simps digit_def hdf2obj.simps dec_defs chunk_def)

text \<open>
  C6, amended. A one-dimensional array of objects whose elements are values that come
  back is stored, under a fresh name or without a name into an empty group, as a
  list-shaped group with the \<open>is_objarray\<close> attribute, and that group decodes to the
  array itself: one dimension, the same length, the same
  elements. The list of the same elements is stored as the same group without the
  attribute, and that group decodes to the list, not to an array.
\<close>

theorem objarray_roundtrip:
  assumes "\<forall>e \<in> set es. plain e" and "n \<notin> set (map fst ch)"
  shows "\<exists>items.
      obj2hdf True (Group a ch) (ObjArray [length es] es) (Some (PyStr n))
        = (Group a (ch @ [(n, Group [(''is_objarray'', ABool True), (''class'', AStr ''list''),
                                      (''module'', AStr ''__builtin__'')] [(''items'', items)])]),
           None)
      \<and> obj2hdf True (Group [] []) (ObjArray [length es] es) None
        = (Group [(''is_objarray'', ABool True), (''class'', AStr ''list''),
                  (''module'', AStr ''__builtin__'')] [(''items'', items)], None)
      \<and> hdf2obj rt name (Group [(''is_objarray'', ABool True), (''class'', AStr ''list''),
                                (''module'', AStr ''__builtin__'')] [(''items'', items)])
        = ([], Inr (ObjArray [length es] es))
      \<and> obj2hdf True (Group a ch) (PyList es) (Some (PyStr n))
        = (Group a (ch @ [(n, Group [(''class'', AStr ''list''),
                                      (''module'', AStr ''__builtin__'')] [(''items'', items)])]),
           None)
      \<and> hdf2obj rt name (Group [(''class'', AStr ''list''),
                                (''module'', AStr ''__builtin__'')] [(''items'', items)])
        = ([], Inr (PyList es))"
proof -
  from assms(1) have "\<forall>e \<in> set es. \<exists>c. faithful e c"
    using plain_faithful by blast
  then obtain cs where cs: "list_all2 faithful es cs"
    using ex_list_all2 by blast
  from faithful_objarray [OF cs] faithful_list [OF cs] assms(2) show ?thesis
    by (auto simp: faithful_def stores_def stores_top_def decodes_def isscalar_def
        is_ndarray_def array_dtype_def)
qed

theorem objarray_roundtrip_witness:
  "plain (Scalar (DInt 64) ''1'') \<and> plain (PyStr ''two'') \<and> plain (Scalar (DFloat 64) ''3'')
   \<and> (\<exists>items.
      obj2hdf True (Group [] [])
          (ObjArray [length [Scalar (DInt 64) ''1'', PyStr ''two'', Scalar (DFloat 64) ''3'']]
             [Scalar (DInt 64) ''1'', PyStr ''two'', Scalar (DFloat 64) ''3''])
          (Some (PyStr ''a''))
        = (Group [] ([] @ [(''a'', Group [(''is_objarray'', ABool True), (''class'', AStr ''list''),
                                      (''module'', AStr ''__builtin__'')] [(''items'', items)])]),
           None)
      \<and> obj2hdf True (Group [] [])
          (ObjArray [length [Scalar (DInt 64) ''1'', PyStr ''two'', Scalar (DFloat 64) ''3'']]
             [Scalar (DInt 64) ''1'', PyStr ''two'', Scalar (DFloat 64) ''3''])
          None
        = (Group [(''is_objarray'', ABool True), (''class'', AStr ''list''),
                  (''module'', AStr ''__builtin__'')] [(''items'', items)], None)
      \<and> hdf2obj (\<lambda>m. None) ''/a''
           (Group [(''is_objarray'', ABool True), (''class'', AStr ''list''),
                   (''module'', AStr ''__builtin__'')] [(''items'', items)])
        = ([], Inr (ObjArray [length [Scalar (DInt 64) ''1'', PyStr ''two'', Scalar (DFloat 64) ''3'']]
                      [Scalar (DInt 64) ''1'', PyStr ''two'', Scalar (DFloat 64) ''3'']))
      \<and> obj2hdf True (Group [] [])
          (PyList [Scalar (DInt 64) ''1'', PyStr ''two'', Scalar (DFloat 64) ''3''])
          (Some (PyStr ''a''))
        = (Group [] ([] @ [(''a'', Group [(''class'', AStr ''list''),
                                      (''module'', AStr ''__builtin__'')] [(''items'', items)])]),
           None)
      \<and> hdf2obj (\<lambda>m. None) ''/a''
           (Group [(''class'', AStr ''list''),
                   (''module'', AStr ''__builtin__'')] [(''items'', items)])
        = ([], Inr (PyList [Scalar (DInt 64) ''1'', PyStr ''two'', Scalar (DFloat 64) ''3''])))"
proof -
  have a: "\<forall>e \<in> set [Scalar (DInt 64) ''1'', PyStr ''two'', Scalar (DFloat 64) ''3'']. plain e"
    by simp
  have n: "''a'' \<notin> set (map fst ([] :: (string \<times> node) list))" by simp
  show ?thesis
    using objarray_roundtrip [OF a n, of "[]" "\<lambda>m. None" "''/a''"]
    by simp
qed

subsection \<open>The keys of a decoded mapping\<close>




subsection \<open>Decoding and the interpreter\<close>



end
